theory Spec2Isabelle
  imports Complex_Main "HOL-Library.Log_Nat" "HOL-Library.Multiset"
begin

section \<open>Data model (types.ts)\<close>

text \<open>
  The interfaces of \<^verbatim>\<open>types.ts\<close> as records. TypeScript types are erased at run time:
  a property the interface declares mandatory can still be \<^verbatim>\<open>undefined\<close> in a stored
  object (the server itself guards against it with \<^verbatim>\<open>||\<close> and \<^verbatim>\<open>&&\<close>), so every data
  property is an \<open>option\<close>, \<open>None\<close> standing for \<^verbatim>\<open>undefined\<close> or a missing key (the two
  are the same to property reads, to \<^verbatim>\<open>===\<close> and to \<^verbatim>\<open>JSON.stringify\<close>).
  Record fields that would clash with each other or with a HOL constant carry a suffix
  (\<open>id_q\<close>, \<open>id_a\<close>, \<open>id_s\<close>). The JSON numbers of the data (option indices, time limit,
  passing score) are integers; a string is a list of code units below 256.
\<close>

datatype difficulty = easy | medium | hard

text \<open>\<^verbatim>\<open>Omit<Question, 'id' | 'createdAt'>\<close>, also the shape of \<^verbatim>\<open>QuestionCreateRequest\<close>.\<close>

record QuestionData =
  question :: "string option"
  options :: "string list option"
  correctAnswer :: "int option"
  difficulty :: "difficulty option"
  category :: "string option"

record Question = QuestionData +
  id_q :: string
  createdAt_q :: string
  updatedAt_q :: "string option"

text \<open>\<^verbatim>\<open>Omit<Assessment, 'id' | 'createdAt'>\<close>, also the shape of \<^verbatim>\<open>AssessmentCreateRequest\<close>.\<close>

record AssessmentData =
  title :: "string option"
  description :: "string option"
  selectedChallenges :: "string list option"
  timeLimit :: "int option"
  passingScore :: "int option"
  password :: "string option"

record Assessment = AssessmentData +
  id_a :: string
  createdAt_a :: string
  updatedAt_a :: "string option"

text \<open>\<^verbatim>\<open>Omit<Submission, 'id' | 'submittedAt'>\<close>; built by the submit handler only, so every
  property is defined. \<open>answers\<close> is the \<^verbatim>\<open>Record<string, number>\<close> of the request.\<close>

record SubmissionData =
  assessmentId :: string
  candidateEmail :: string
  answers :: "string \<rightharpoonup> int"
  score :: int
  correctCount :: nat
  totalQuestions :: nat
  passed :: bool

record Submission = SubmissionData +
  id_s :: string
  submittedAt :: string

text \<open>\<^verbatim>\<open>SubmissionRequest\<close>: the parsed JSON body of a submit request.\<close>

record SubmissionRequest =
  candidateEmail_req :: "string option"
  answers_req :: "(string \<rightharpoonup> int) option"

text \<open>\<^verbatim>\<open>interface Database\<close> of \<^verbatim>\<open>database.ts\<close>: the in-memory collections.\<close>

record Database =
  questions :: "Question list"
  assessments :: "Assessment list"
  submissions :: "Submission list"

text \<open>
  What a request reads from its environment: \<^verbatim>\<open>Date.now()\<close> in milliseconds, the string
  \<^verbatim>\<open>new Date().toISOString()\<close>, and whether \<^verbatim>\<open>fs.writeFileSync\<close> succeeds.
\<close>

record Env =
  now :: nat
  iso :: string
  disk_ok :: bool

datatype error = SaveFailed string

text \<open>An HTTP response: status and success body, status and \<^verbatim>\<open>{ error }\<close>, or status and
  \<^verbatim>\<open>{ error, requiresPassword: true }\<close>.\<close>

datatype 'a response =
    Payload nat 'a
  | Error nat string
  | AuthRequired nat string

section \<open>JavaScript primitives\<close>

text \<open>\<^verbatim>\<open>x || d\<close>: the default replaces every falsy value, so \<^verbatim>\<open>undefined\<close>, the
  empty string and the number zero; an array is always truthy.\<close>

definition or_str :: "string option \<Rightarrow> string \<Rightarrow> string" where
  "or_str x d = (case x of None \<Rightarrow> d | Some s \<Rightarrow> if s = [] then d else s)"

definition or_num :: "int option \<Rightarrow> int \<Rightarrow> int" where
  "or_num x d = (case x of None \<Rightarrow> d | Some n \<Rightarrow> if n = 0 then d else n)"

definition or_arr :: "'a list option \<Rightarrow> 'a list \<Rightarrow> 'a list" where
  "or_arr x d = (case x of None \<Rightarrow> d | Some xs \<Rightarrow> xs)"

definition or_val :: "'a option \<Rightarrow> 'a \<Rightarrow> 'a" where
  "or_val x d = (case x of None \<Rightarrow> d | Some v \<Rightarrow> v)"

text \<open>\<^verbatim>\<open>s || undefined\<close> on an optional string.\<close>

definition or_undefined :: "string option \<Rightarrow> string option" where
  "or_undefined x = (case x of None \<Rightarrow> None | Some s \<Rightarrow> if s = [] then None else Some s)"

text \<open>Truthiness of an optional string, as tested by \<^verbatim>\<open>assessment.password && ...\<close>.\<close>

definition truthy_str :: "string option \<Rightarrow> bool" where
  "truthy_str x = (case x of None \<Rightarrow> False | Some s \<Rightarrow> s \<noteq> [])"

text \<open>\<^verbatim>\<open>String.prototype.trim\<close> on code units below 256: tab, line feed, vertical tab,
  form feed, carriage return, space and no-break space.\<close>

definition isWhiteSpace :: "char \<Rightarrow> bool" where
  "isWhiteSpace c = (of_char c \<in> {9, 10, 11, 12, 13, 32, 160 :: nat})"

definition trim :: "string \<Rightarrow> string" where
  "trim s = rev (dropWhile isWhiteSpace (rev (dropWhile isWhiteSpace s)))"

text \<open>\<^verbatim>\<open>Number.prototype.toString\<close> on a non-negative integer: its decimal digits.\<close>

definition digit :: "nat \<Rightarrow> char" where
  "digit d = ''0123456789'' ! d"

fun toString :: "nat \<Rightarrow> string" where
  "toString n = (if n < 10 then [digit n] else toString (n div 10) @ [digit (n mod 10)])"

declare toString.simps [simp del]

text \<open>\<^verbatim>\<open>Array.prototype.findIndex\<close>, with \<open>None\<close> for \<^verbatim>\<open>-1\<close>.\<close>

fun findIndex :: "('a \<Rightarrow> bool) \<Rightarrow> 'a list \<Rightarrow> nat option" where
  "findIndex P [] = None"
| "findIndex P (x # xs) = (if P x then Some 0 else map_option Suc (findIndex P xs))"

subsection \<open>Number arithmetic\<close>

text \<open>
  A JavaScript number is an IEEE 754 binary64 value. The finite ones are rationals, and
  \<^verbatim>\<open>a / b\<close>, \<^verbatim>\<open>a * b\<close> are the exact quotient and product rounded to the nearest value with
  a 53-bit significand, ties to the even significand (\<open>fl64\<close>). Overflow and subnormal
  results are not modelled: the operands here are array lengths (below \<open>2 ^ 32\<close>) and
  \<open>100\<close>, and the only division is guarded by \<^verbatim>\<open>totalQuestions > 0\<close>. \<^verbatim>\<open>Math.round\<close> is
  exact: the nearest integer, a tie going up.
\<close>

text \<open>The binary exponent of a positive rational, from the bit lengths of its numerator and
  denominator.\<close>

definition ilog2 :: "rat \<Rightarrow> int" where
  "ilog2 x = (let (p, q) = quotient_of x; d = bitlen p - bitlen q
              in if 2 powi d \<le> x then d else d - 1)"

text \<open>The nearest integer, a tie going to the even one.\<close>

definition roundTiesToEven :: "rat \<Rightarrow> int" where
  "roundTiesToEven y =
     (let f = \<lfloor>y\<rfloor>; r = y - of_int f
      in if r < 1 / 2 then f else if 1 / 2 < r then f + 1 else if even f then f else f + 1)"

text \<open>The nearest binary64 value: the significand is scaled into \<open>[2 ^ 52, 2 ^ 53]\<close> and
  rounded to an integer.\<close>

definition fl64 :: "rat \<Rightarrow> rat" where
  "fl64 x = (if x = 0 then 0
             else let u = 2 powi (ilog2 \<bar>x\<bar> - 52)
                  in sgn x * of_int (roundTiesToEven (\<bar>x\<bar> / u)) * u)"

definition js_div :: "rat \<Rightarrow> rat \<Rightarrow> rat" where
  "js_div a b = fl64 (a / b)"

definition js_mul :: "rat \<Rightarrow> rat \<Rightarrow> rat" where
  "js_mul a b = fl64 (a * b)"

definition Math_round :: "rat \<Rightarrow> int" where
  "Math_round x = \<lfloor>x + 1 / 2\<rfloor>"

section \<open>The record store (database.ts)\<close>

text \<open>\<^verbatim>\<open>saveCollection\<close>: the write of the collection's file either succeeds or throws.\<close>

definition saveCollection :: "Env \<Rightarrow> string \<Rightarrow> error + unit" where
  "saveCollection env collection =
     (if disk_ok env then Inr () else Inl (SaveFailed collection))"

definition getQuestions :: "Database \<Rightarrow> Question list" where
  "getQuestions db = questions db"

definition getQuestion :: "Database \<Rightarrow> string \<Rightarrow> Question option" where
  "getQuestion db i = find (\<lambda>q. id_q q = i) (questions db)"

text \<open>Every mutating method changes the in-memory collection first and saves second, so
  the new state is returned also when the save throws.\<close>

definition createQuestion ::
  "Env \<Rightarrow> QuestionData \<Rightarrow> Database \<Rightarrow> Database \<times> (error + Question)" where
  "createQuestion env q db =
     (let newQuestion = QuestionData.extend q
            (Question.fields (toString (now env)) (iso env) None);
          db' = db\<lparr>questions := questions db @ [newQuestion]\<rparr>
      in (db', case saveCollection env ''questions'' of
                 Inl e \<Rightarrow> Inl e | Inr _ \<Rightarrow> Inr newQuestion))"

text \<open>
  A property of the \<^verbatim>\<open>updates\<close> object handed to \<^verbatim>\<open>updateQuestion\<close>: the key is missing,
  or it is present with a value that may be \<^verbatim>\<open>undefined\<close>. Object spread copies every
  own key of its operand, whatever the value.
\<close>

datatype 'a property = Missing | Present "'a option"

fun spread :: "'a option \<Rightarrow> 'a property \<Rightarrow> 'a option" where
  "spread old Missing = old"
| "spread old (Present v) = v"

text \<open>\<^verbatim>\<open>Partial<Omit<Question, 'id' | 'createdAt'>>\<close>. A key \<^verbatim>\<open>updatedAt\<close> in it would be
  overwritten by the stamp that follows the spread, so it is left out.\<close>

record QuestionUpdates =
  question_upd :: "string property"
  options_upd :: "string list property"
  correctAnswer_upd :: "int property"
  difficulty_upd :: "difficulty property"
  category_upd :: "string property"

definition updateQuestion ::
  "Env \<Rightarrow> string \<Rightarrow> QuestionUpdates \<Rightarrow> Database \<Rightarrow> Database \<times> (error + Question option)" where
  "updateQuestion env i updates db =
     (case findIndex (\<lambda>q. id_q q = i) (questions db) of
        None \<Rightarrow> (db, Inr None)
      | Some index \<Rightarrow>
          let old = questions db ! index;
              new = old\<lparr>question := spread (question old) (question_upd updates),
                        options := spread (options old) (options_upd updates),
                        correctAnswer := spread (correctAnswer old) (correctAnswer_upd updates),
                        difficulty := spread (difficulty old) (difficulty_upd updates),
                        category := spread (category old) (category_upd updates),
                        updatedAt_q := Some (iso env)\<rparr>;
              db' = db\<lparr>questions := (questions db)[index := new]\<rparr>
          in (db', case saveCollection env ''questions'' of
                     Inl e \<Rightarrow> Inl e | Inr _ \<Rightarrow> Inr (Some new)))"

text \<open>\<^verbatim>\<open>deleteQuestion\<close>: \<^verbatim>\<open>splice(index, 1)\<close> removes the first question with the id; no
  assessment is touched.\<close>

definition deleteQuestion :: "Env \<Rightarrow> string \<Rightarrow> Database \<Rightarrow> Database \<times> (error + bool)" where
  "deleteQuestion env i db =
     (case findIndex (\<lambda>q. id_q q = i) (questions db) of
        None \<Rightarrow> (db, Inr False)
      | Some index \<Rightarrow>
          let db' = db\<lparr>questions := take index (questions db) @ drop (Suc index) (questions db)\<rparr>
          in (db', case saveCollection env ''questions'' of
                     Inl e \<Rightarrow> Inl e | Inr _ \<Rightarrow> Inr True))"

definition getAssessment :: "Database \<Rightarrow> string \<Rightarrow> Assessment option" where
  "getAssessment db i = find (\<lambda>a. id_a a = i) (assessments db)"

definition createAssessment ::
  "Env \<Rightarrow> AssessmentData \<Rightarrow> Database \<Rightarrow> Database \<times> (error + Assessment)" where
  "createAssessment env a db =
     (let newAssessment = AssessmentData.extend a
            (Assessment.fields (toString (now env)) (iso env) None);
          db' = db\<lparr>assessments := assessments db @ [newAssessment]\<rparr>
      in (db', case saveCollection env ''assessments'' of
                 Inl e \<Rightarrow> Inl e | Inr _ \<Rightarrow> Inr newAssessment))"

definition createSubmission ::
  "Env \<Rightarrow> SubmissionData \<Rightarrow> Database \<Rightarrow> Database \<times> (error + Submission)" where
  "createSubmission env s db =
     (let newSubmission = SubmissionData.extend s
            (Submission.fields (toString (now env)) (iso env));
          db' = db\<lparr>submissions := submissions db @ [newSubmission]\<rparr>
      in (db', case saveCollection env ''submissions'' of
                 Inl e \<Rightarrow> Inl e | Inr _ \<Rightarrow> Inr newSubmission))"

section \<open>The HTTP handlers (server.ts)\<close>

text \<open>Each handler takes the request (path parameter, header, parsed body) and the store
  and returns the response, together with the new store when it writes. The
  \<^verbatim>\<open>try\<close>/\<^verbatim>\<open>catch\<close> around every handler turns a thrown save error into a 500.\<close>

subsection \<open>Questions\<close>

text \<open>\<^verbatim>\<open>POST /api/challenges\<close>\<close>

definition post_challenges ::
  "Env \<Rightarrow> QuestionData \<Rightarrow> Database \<Rightarrow> Database \<times> Question response" where
  "post_challenges env body db =
     (let questionData =
            \<lparr>question = Some (or_str (question body) []),
             options = Some (or_arr (options body) []),
             correctAnswer = Some (or_num (correctAnswer body) 0),
             difficulty = Some (or_val (difficulty body) medium),
             category = Some (or_str (category body) ''General'')\<rparr>
      in case createQuestion env questionData db of
           (db', Inl e) \<Rightarrow> (db', Error 500 ''Failed to create question'')
         | (db', Inr q) \<Rightarrow> (db', Payload 201 q))"

text \<open>\<^verbatim>\<open>GET /api/challenges/:id\<close>\<close>

definition get_challenge :: "Database \<Rightarrow> string \<Rightarrow> Question response" where
  "get_challenge db i =
     (case getQuestion db i of
        None \<Rightarrow> Error 404 ''Question not found''
      | Some q \<Rightarrow> Payload 200 q)"

text \<open>\<^verbatim>\<open>PUT /api/challenges/:id\<close>. The object literal \<^verbatim>\<open>updates\<close> has all five keys,
  whatever the body holds.\<close>

definition put_challenge ::
  "Env \<Rightarrow> string \<Rightarrow> QuestionData \<Rightarrow> Database \<Rightarrow> Database \<times> Question response" where
  "put_challenge env i body db =
     (let updates =
            \<lparr>question_upd = Present (question body),
             options_upd = Present (options body),
             correctAnswer_upd = Present (correctAnswer body),
             difficulty_upd = Present (difficulty body),
             category_upd = Present (category body)\<rparr>
      in case updateQuestion env i updates db of
           (db', Inl e) \<Rightarrow> (db', Error 500 ''Failed to update question'')
         | (db', Inr None) \<Rightarrow> (db', Error 404 ''Question not found'')
         | (db', Inr (Some q)) \<Rightarrow> (db', Payload 200 q))"

text \<open>\<^verbatim>\<open>DELETE /api/challenges/:id\<close>; the success body holds a message only.\<close>

definition delete_challenge :: "Env \<Rightarrow> string \<Rightarrow> Database \<Rightarrow> Database \<times> unit response" where
  "delete_challenge env i db =
     (case deleteQuestion env i db of
        (db', Inl e) \<Rightarrow> (db', Error 500 ''Failed to delete question'')
      | (db', Inr False) \<Rightarrow> (db', Error 404 ''Question not found'')
      | (db', Inr True) \<Rightarrow> (db', Payload 200 ()))"

subsection \<open>Assessments\<close>

text \<open>\<^verbatim>\<open>POST /api/assessments\<close>; the response is the stored assessment with the
  \<^verbatim>\<open>password\<close> key deleted.\<close>

definition post_assessments ::
  "Env \<Rightarrow> AssessmentData \<Rightarrow> Database \<Rightarrow> Database \<times> Assessment response" where
  "post_assessments env body db =
     (let assessmentData =
            \<lparr>title = Some (or_str (title body) []),
             description = Some (or_str (description body) []),
             selectedChallenges = Some (or_arr (selectedChallenges body) []),
             timeLimit = Some (or_num (timeLimit body) 30),
             passingScore = Some (or_num (passingScore body) 70),
             password = or_undefined (password body)\<rparr>
      in case createAssessment env assessmentData db of
           (db', Inl e) \<Rightarrow> (db', Error 500 ''Failed to create assessment'')
         | (db', Inr a) \<Rightarrow> (db', Payload 201 (a\<lparr>password := None\<rparr>)))"

text \<open>The filter predicate of both fetches:
  \<^verbatim>\<open>assessment.selectedChallenges && assessment.selectedChallenges.includes(q.id)\<close>.\<close>

definition selected :: "Assessment \<Rightarrow> Question \<Rightarrow> bool" where
  "selected a q = (case selectedChallenges a of None \<Rightarrow> False | Some sel \<Rightarrow> id_q q \<in> set sel)"

text \<open>The body \<^verbatim>\<open>{ ...assessment, challenges }\<close> of both fetches.\<close>

record 'q AssessmentView =
  item :: Assessment
  challenges :: "'q list"

text \<open>\<^verbatim>\<open>GET /api/assessments/:id\<close>, the authoring fetch.\<close>

definition get_assessment :: "Database \<Rightarrow> string \<Rightarrow> Question AssessmentView response" where
  "get_assessment db i =
     (case getAssessment db i of
        None \<Rightarrow> Error 404 ''Assessment not found''
      | Some a \<Rightarrow>
          Payload 200 \<lparr>item = a, challenges = filter (selected a) (getQuestions db)\<rparr>)"

text \<open>The object literal the candidate fetch maps every question to.\<close>

record CandidateQuestion =
  id_c :: string
  question_c :: "string option"
  options_c :: "string list option"
  difficulty_c :: "difficulty option"
  category_c :: "string option"

definition candidateQuestion :: "Question \<Rightarrow> CandidateQuestion" where
  "candidateQuestion q =
     \<lparr>id_c = id_q q, question_c = question q, options_c = options q,
      difficulty_c = difficulty q, category_c = category q\<rparr>"

text \<open>\<^verbatim>\<open>GET /api/assessments/:id/take\<close>, the candidate fetch; \<open>providedPassword\<close> is the
  header \<^verbatim>\<open>x-assessment-password\<close>, \<open>None\<close> when the request has none.\<close>

definition get_assessment_take ::
  "Database \<Rightarrow> string \<Rightarrow> string option \<Rightarrow> CandidateQuestion AssessmentView response" where
  "get_assessment_take db i providedPassword =
     (case getAssessment db i of
        None \<Rightarrow> Error 404 ''Assessment not found''
      | Some a \<Rightarrow>
          if truthy_str (password a) \<and> password a \<noteq> providedPassword
          then AuthRequired 401 ''Password required''
          else Payload 200
                 \<lparr>item = a\<lparr>password := None\<rparr>,
                  challenges = map candidateQuestion (filter (selected a) (getQuestions db))\<rparr>)"

subsection \<open>Submission and scoring\<close>

text \<open>The locals of \<^verbatim>\<open>POST /api/assessments/:id/submit\<close>, one definition each:
  \<^verbatim>\<open>totalQuestions\<close>, the \<^verbatim>\<open>forEach\<close> loop that increments \<^verbatim>\<open>correctCount\<close>,
  \<^verbatim>\<open>score\<close> and \<^verbatim>\<open>passed\<close>.\<close>

definition totalQuestions_of :: "Assessment \<Rightarrow> nat" where
  "totalQuestions_of a = (case selectedChallenges a of None \<Rightarrow> 0 | Some sel \<Rightarrow> length sel)"

text \<open>One iteration: \<^verbatim>\<open>answers[questionId] === question.correctAnswer\<close> compares two values
  that may both be \<^verbatim>\<open>undefined\<close>. (A read of \<^verbatim>\<open>answers\<close> finds the keys of the request only;
  the properties every object inherits, such as \<^verbatim>\<open>constructor\<close>, are not modelled.)\<close>

definition check_answer :: "Database \<Rightarrow> (string \<rightharpoonup> int) \<Rightarrow> string \<Rightarrow> nat \<Rightarrow> nat" where
  "check_answer db ans questionId correct =
     (case getQuestion db questionId of
        None \<Rightarrow> correct
      | Some q \<Rightarrow> if ans questionId = correctAnswer q then correct + 1 else correct)"

definition correctCount_of :: "Database \<Rightarrow> (string \<rightharpoonup> int) \<Rightarrow> Assessment \<Rightarrow> nat" where
  "correctCount_of db ans a =
     (case selectedChallenges a of None \<Rightarrow> 0 | Some sel \<Rightarrow> fold (check_answer db ans) sel 0)"

definition score_of :: "nat \<Rightarrow> nat \<Rightarrow> int" where
  "score_of correct n =
     (if n > 0 then Math_round (js_mul (js_div (of_nat correct) (of_nat n)) 100) else 0)"

definition passed_of :: "int \<Rightarrow> Assessment \<Rightarrow> bool" where
  "passed_of sc a = (sc \<ge> or_num (passingScore a) 70)"

definition post_assessment_submit ::
  "Env \<Rightarrow> string \<Rightarrow> SubmissionRequest \<Rightarrow> Database \<Rightarrow> Database \<times> Submission response" where
  "post_assessment_submit env i body db =
     (case getAssessment db i of
        None \<Rightarrow> (db, Error 404 ''Assessment not found'')
      | Some a \<Rightarrow>
          let ans = or_val (answers_req body) Map.empty;
              email = or_str (candidateEmail_req body) []
          in if trim email = [] then (db, Error 400 ''Candidate email is required'')
             else
               let correct = correctCount_of db ans a;
                   n = totalQuestions_of a;
                   sc = score_of correct n;
                   submissionData =
                     \<lparr>assessmentId = i, candidateEmail = trim email, answers = ans,
                      score = sc, correctCount = correct, totalQuestions = n,
                      passed = passed_of sc a\<rparr>
               in case createSubmission env submissionData db of
                    (db', Inl e) \<Rightarrow> (db', Error 500 ''Failed to submit assessment'')
                  | (db', Inr s) \<Rightarrow> (db', Payload 201 s))"

section \<open>Notions used to state the properties\<close>

text \<open>The success body of a response, if it has one.\<close>

fun payload :: "'a response \<Rightarrow> 'a option" where
  "payload (Payload _ v) = Some v"
| "payload (Error _ _) = None"
| "payload (AuthRequired _ _) = None"

text \<open>The candidate's answer to \<open>questionId\<close> is counted as correct: the id resolves and the
  submitted index is strictly equal to the stored one.\<close>

definition answered_correctly :: "Database \<Rightarrow> (string \<rightharpoonup> int) \<Rightarrow> string \<Rightarrow> bool" where
  "answered_correctly db ans questionId =
     (case getQuestion db questionId of None \<Rightarrow> False | Some q \<Rightarrow> ans questionId = correctAnswer q)"

text \<open>The invariant of the data model: \<open>0 \<le> correctAnswer < len(options)\<close>.\<close>

definition valid_answer_index :: "Question \<Rightarrow> bool" where
  "valid_answer_index q =
     (case correctAnswer q of
        None \<Rightarrow> False
      | Some c \<Rightarrow> (case options q of None \<Rightarrow> False | Some os \<Rightarrow> 0 \<le> c \<and> c < int (length os)))"

text \<open>The store in which the assessment \<open>i\<close> lists the question ids \<open>sel\<close> instead.\<close>

definition with_selection :: "Database \<Rightarrow> string \<Rightarrow> string list \<Rightarrow> Database" where
  "with_selection db i sel =
     db\<lparr>assessments :=
          map (\<lambda>a. if id_a a = i then a\<lparr>selectedChallenges := Some sel\<rparr> else a) (assessments db)\<rparr>"

text \<open>Every identifier of the list is the decimal rendering of a clock reading before \<open>t\<close>.\<close>

definition minted_before :: "nat \<Rightarrow> string list \<Rightarrow> bool" where
  "minted_before t ids = (\<forall>i \<in> set ids. \<exists>m < t. i = toString m)"

section \<open>Example data\<close>

definition ex_q1 :: Question where
  "ex_q1 = \<lparr>question = Some ''2 + 2?'', options = Some [''3'', ''4'', ''5''],
            correctAnswer = Some 1, difficulty = Some easy, category = Some ''Math'',
            id_q = ''1'', createdAt_q = ''1970-01-01T00:00:00.001Z'', updatedAt_q = None\<rparr>"

definition ex_q2 :: Question where
  "ex_q2 = \<lparr>question = Some ''1 - 1?'', options = Some [''0'', ''1''],
            correctAnswer = Some 0, difficulty = Some easy, category = Some ''Math'',
            id_q = ''2'', createdAt_q = ''1970-01-01T00:00:00.002Z'', updatedAt_q = None\<rparr>"

text \<open>Three assessments: the two questions, second one first, and no password; behind the
  password \<^verbatim>\<open>abc123\<close>, a list with a stale id and a repeated one; no question and
  passing score 0.\<close>

definition ex_open :: Assessment where
  "ex_open = \<lparr>title = Some ''Quiz'', description = Some [],
              selectedChallenges = Some [''2'', ''1''], timeLimit = Some 30,
              passingScore = Some 70, password = None,
              id_a = ''10'', createdAt_a = ''1970-01-01T00:00:00.010Z'', updatedAt_a = None\<rparr>"

definition ex_locked :: Assessment where
  "ex_locked = \<lparr>title = Some ''Quiz'', description = Some [],
                selectedChallenges = Some [''2'', ''1'', ''9'', ''2''], timeLimit = Some 30,
                passingScore = Some 70, password = Some ''abc123'',
                id_a = ''11'', createdAt_a = ''1970-01-01T00:00:00.011Z'', updatedAt_a = None\<rparr>"

definition ex_empty :: Assessment where
  "ex_empty = \<lparr>title = Some ''Empty'', description = Some [],
               selectedChallenges = Some [], timeLimit = Some 30,
               passingScore = Some 0, password = None,
               id_a = ''12'', createdAt_a = ''1970-01-01T00:00:00.012Z'', updatedAt_a = None\<rparr>"

definition ex_db :: Database where
  "ex_db = \<lparr>questions = [ex_q1, ex_q2], assessments = [ex_open, ex_locked, ex_empty],
            submissions = []\<rparr>"

definition ex_env :: Env where
  "ex_env = \<lparr>now = 1730000000000, iso = ''2024-10-27T03:33:20.000Z'', disk_ok = True\<rparr>"

text \<open>A submission that answers index 1 to both questions.\<close>

definition ex_submit :: SubmissionRequest where
  "ex_submit = \<lparr>candidateEmail_req = Some '' ann@example.org '',
               answers_req = Some [''1'' \<mapsto> 1, ''2'' \<mapsto> 1]\<rparr>"

definition ex_blank :: SubmissionRequest where
  "ex_blank = \<lparr>candidateEmail_req = Some ''   '',
              answers_req = Some [''1'' \<mapsto> 1, ''2'' \<mapsto> 1]\<rparr>"

text \<open>The environment of a request one millisecond later.\<close>

definition ex_later :: Env where
  "ex_later = \<lparr>now = 1730000000001, iso = ''2024-10-27T03:33:20.001Z'', disk_ok = True\<rparr>"

text \<open>A submission that answers both questions correctly.\<close>

definition ex_submit_right :: SubmissionRequest where
  "ex_submit_right = \<lparr>candidateEmail_req = Some ''cy@example.org'',
                     answers_req = Some [''1'' \<mapsto> 1, ''2'' \<mapsto> 0]\<rparr>"


text \<open>Question bodies: an empty one, a complete one, and one that has the text only.\<close>

definition ex_nobody :: QuestionData where
  "ex_nobody = \<lparr>question = None, options = None, correctAnswer = None,
                difficulty = None, category = None\<rparr>"

definition ex_body :: QuestionData where
  "ex_body = \<lparr>question = Some ''What is 2 + 2?'', options = Some [''3'', ''4'', ''5'', ''6''],
              correctAnswer = Some 1, difficulty = Some easy, category = Some ''Math''\<rparr>"

definition ex_patch :: QuestionData where
  "ex_patch = \<lparr>question = Some ''2 + 3?'', options = None, correctAnswer = None,
               difficulty = None, category = None\<rparr>"

text \<open>The question that the empty body creates, and the first question after the update
  with the body that has the text only.\<close>

definition ex_created :: Question where
  "ex_created = \<lparr>question = Some [], options = Some [], correctAnswer = Some 0,
                 difficulty = Some medium, category = Some ''General'',
                 id_q = ''1730000000000'', createdAt_q = ''2024-10-27T03:33:20.000Z'',
                 updatedAt_q = None\<rparr>"

definition ex_patched :: Question where
  "ex_patched = \<lparr>question = Some ''2 + 3?'', options = None, correctAnswer = None,
                 difficulty = None, category = None,
                 id_q = ''1'', createdAt_q = ''1970-01-01T00:00:00.001Z'',
                 updatedAt_q = Some ''2024-10-27T03:33:20.000Z''\<rparr>"

lemmas ex_defs =
  ex_q1_def ex_q2_def ex_open_def ex_locked_def ex_empty_def ex_db_def ex_env_def
  ex_submit_def ex_body_def

section \<open>Basic facts\<close>

lemma dropWhile_all_iff: "(\<forall>x \<in> set (dropWhile P s). P x) \<longleftrightarrow> dropWhile P s = []"
proof
  assume a: "\<forall>x \<in> set (dropWhile P s). P x"
  show "dropWhile P s = []"
  proof (rule ccontr)
    assume n: "dropWhile P s \<noteq> []"
    then have "\<not> P (hd (dropWhile P s))" by (rule hd_dropWhile)
    moreover from n have "hd (dropWhile P s) \<in> set (dropWhile P s)" by (rule hd_in_set)
    ultimately show False using a by blast
  qed
next
  assume "dropWhile P s = []"
  then show "\<forall>x \<in> set (dropWhile P s). P x" by (auto dest: set_dropWhileD)
qed

lemma trim_empty_iff: "trim s = [] \<longleftrightarrow> (\<forall>c \<in> set s. isWhiteSpace c)"
  using dropWhile_all_iff [of isWhiteSpace s] by (simp add: trim_def dropWhile_eq_Nil_conv)

lemma createSubmission_fst:
  "fst (createSubmission env s db) =
     db\<lparr>submissions := submissions db @
           [SubmissionData.extend s (Submission.fields (toString (now env)) (iso env))]\<rparr>"
  by (simp add: createSubmission_def Let_def)

lemma fold_check_answer:
  "fold (check_answer db ans) sel k = k + length (filter (answered_correctly db ans) sel)"
  by (induction sel arbitrary: k)
     (auto simp: check_answer_def answered_correctly_def split: option.splits)

lemma correctCount_of_filter:
  "correctCount_of db ans a =
     length (filter (answered_correctly db ans) (or_arr (selectedChallenges a) []))"
  by (simp add: correctCount_of_def or_arr_def fold_check_answer split: option.splits)

lemma totalQuestions_of_length:
  "totalQuestions_of a = length (or_arr (selectedChallenges a) [])"
  by (simp add: totalQuestions_of_def or_arr_def split: option.splits)

text \<open>What an accepted submit request stores: one new submission, appended.\<close>

lemma submit_stores:
  assumes "getAssessment db i = Some a"
    and "trim (or_str (candidateEmail_req body) []) \<noteq> []"
  shows "submissions (fst (post_assessment_submit env i body db)) =
           submissions db @
             [\<lparr>assessmentId = i,
               candidateEmail = trim (or_str (candidateEmail_req body) []),
               answers = or_val (answers_req body) Map.empty,
               score = score_of (correctCount_of db (or_val (answers_req body) Map.empty) a)
                         (totalQuestions_of a),
               correctCount = correctCount_of db (or_val (answers_req body) Map.empty) a,
               totalQuestions = totalQuestions_of a,
               passed = passed_of
                          (score_of (correctCount_of db (or_val (answers_req body) Map.empty) a)
                             (totalQuestions_of a)) a,
               id_s = toString (now env), submittedAt = iso env\<rparr>]"
  using assms
  by (simp add: post_assessment_submit_def Let_def createSubmission_def SubmissionData.extend_def
      Submission.fields_def split: sum.splits prod.splits)

section \<open>Rejected submissions\<close>

text \<open>
  Claim C7. A submit request against an existing assessment whose \<^verbatim>\<open>candidateEmail\<close> is
  absent, empty or made of whitespace only is answered with status 400 and the message
  \<^verbatim>\<open>Candidate email is required\<close>, and the store, so the submissions collection, is the
  one before the request.
\<close>

theorem submit_blank_email_rejected:
  assumes "getAssessment db i = Some a"
    and "\<forall>s. candidateEmail_req body = Some s \<longrightarrow> (\<forall>c \<in> set s. isWhiteSpace c)"
  shows "post_assessment_submit env i body db = (db, Error 400 ''Candidate email is required'')"
proof -
  have "trim (or_str (candidateEmail_req body) []) = []"
    using assms(2) by (cases "candidateEmail_req body") (auto simp: or_str_def trim_empty_iff)
  with assms(1) show ?thesis
    by (simp add: post_assessment_submit_def)
qed

theorem submit_blank_email_rejected_witness:
  "getAssessment ex_db ''10'' = Some ex_open
   \<and> candidateEmail_req ex_blank = Some ''   '' \<and> list_all isWhiteSpace ''   ''
   \<and> post_assessment_submit ex_env ''10'' ex_blank ex_db
       = (ex_db, Error 400 ''Candidate email is required'')
   \<and> submissions (fst (post_assessment_submit ex_env ''10'' ex_blank ex_db)) = submissions ex_db"
proof -
  have h1: "getAssessment ex_db ''10'' = Some ex_open"
    by (simp add: getAssessment_def ex_defs)
  have h2: "\<forall>s. candidateEmail_req ex_blank = Some s \<longrightarrow> (\<forall>c \<in> set s. isWhiteSpace c)"
    by (simp add: ex_blank_def isWhiteSpace_def)
  have h3: "candidateEmail_req ex_blank = Some ''   ''" "list_all isWhiteSpace ''   ''"
    by (simp_all add: ex_blank_def isWhiteSpace_def)
  show ?thesis
    using h1 h3 submit_blank_email_rejected [OF h1 h2, of ex_env] by simp
qed

section \<open>The access gate\<close>

text \<open>
  Claim C6. For an existing assessment and any supplied credential, absent or not: with no
  secret stored (the property is missing or the empty string, which the server treats as
  no secret) the candidate fetch is granted; with a secret stored it is granted exactly
  when the credential is equal to the secret, and every other request, whether it carries
  no credential or a wrong one, gets the 401 response that asks for the password.
\<close>

theorem take_access_gate:
  assumes "getAssessment db i = Some a"
  shows "(password a = None \<or> password a = Some [] \<longrightarrow>
            payload (get_assessment_take db i cred) \<noteq> None)
       \<and> (\<forall>s. password a = Some s \<and> s \<noteq> [] \<longrightarrow>
            (payload (get_assessment_take db i cred) \<noteq> None \<longleftrightarrow> cred = Some s)
          \<and> (cred \<noteq> Some s \<longrightarrow>
               get_assessment_take db i cred = AuthRequired 401 ''Password required''))"
  using assms by (auto simp: get_assessment_take_def truthy_str_def)

theorem take_access_gate_witness:
  "getAssessment ex_db ''10'' = Some ex_open \<and> password ex_open = None
   \<and> payload (get_assessment_take ex_db ''10'' None) \<noteq> None
   \<and> getAssessment ex_db ''11'' = Some ex_locked \<and> password ex_locked = Some ''abc123''
   \<and> get_assessment_take ex_db ''11'' (Some ''wrong'') = AuthRequired 401 ''Password required''
   \<and> get_assessment_take ex_db ''11'' None = AuthRequired 401 ''Password required''
   \<and> payload (get_assessment_take ex_db ''11'' (Some ''abc123'')) \<noteq> None"
proof -
  have h1: "getAssessment ex_db ''10'' = Some ex_open"
    by (simp add: getAssessment_def ex_defs)
  have h2: "getAssessment ex_db ''11'' = Some ex_locked"
    by (simp add: getAssessment_def ex_defs)
  have p1: "password ex_open = None" and p2: "password ex_locked = Some ''abc123''"
    by (simp_all add: ex_defs)
  show ?thesis
    using h1 h2 p1 p2 take_access_gate [OF h1, of None]
      take_access_gate [OF h2, of "Some ''wrong''"] take_access_gate [OF h2, of None]
      take_access_gate [OF h2, of "Some ''abc123''"]
    by simp
qed

section \<open>Redaction in the candidate fetch\<close>

lemma filter_selected_map:
  assumes "\<And>q. id_q (g q) = id_q q"
  shows "filter (selected a) (map g qs) = map g (filter (selected a) qs)"
proof -
  have "selected a (g q) = selected a q" for q
    by (simp add: selected_def assms split: option.splits)
  then show ?thesis
    by (induction qs) simp_all
qed

lemma candidateQuestion_correctAnswer:
  "candidateQuestion (q\<lparr>correctAnswer := c\<rparr>) = candidateQuestion q"
  by (simp add: candidateQuestion_def)

lemma take_ignores_correctAnswer:
  "get_assessment_take (db\<lparr>questions := map (\<lambda>q. q\<lparr>correctAnswer := f q\<rparr>) (questions db)\<rparr>) i cred
     = get_assessment_take db i cred"
proof -
  have "filter (selected a) (map (\<lambda>q. q\<lparr>correctAnswer := f q\<rparr>) qs)
          = map (\<lambda>q. q\<lparr>correctAnswer := f q\<rparr>) (filter (selected a) qs)" for a qs
    by (rule filter_selected_map) simp
  then show ?thesis
    by (simp add: get_assessment_take_def getAssessment_def getQuestions_def
        candidateQuestion_correctAnswer comp_def split: option.splits)
qed

text \<open>
  Claim C5. When the candidate fetch grants access, the assessment it returns has no
  secret, and its questions are the questions of the authoring fetch for the same id, each
  reduced to id, text, options, difficulty and category; the whole response is the same
  whatever the stored correct answers are. The authoring fetch returns the assessment as
  stored, secret included, with the full questions.
\<close>

theorem take_redacts_secret_and_answers:
  assumes "get_assessment_take db i cred = Payload st v"
  shows "\<exists>a. getAssessment db i = Some a
           \<and> get_assessment db i
                = Payload 200 \<lparr>item = a, challenges = filter (selected a) (questions db)\<rparr>
           \<and> item v = a\<lparr>password := None\<rparr>
           \<and> password (item v) = None
           \<and> challenges v = map candidateQuestion (filter (selected a) (questions db))
           \<and> (\<forall>f. get_assessment_take
                     (db\<lparr>questions := map (\<lambda>q. q\<lparr>correctAnswer := f q\<rparr>) (questions db)\<rparr>) i cred
                   = Payload st v)"
proof (cases "getAssessment db i")
  case None
  with assms show ?thesis by (simp add: get_assessment_take_def)
next
  case (Some a)
  with assms have "v = \<lparr>item = a\<lparr>password := None\<rparr>,
      challenges = map candidateQuestion (filter (selected a) (questions db))\<rparr>"
    by (simp add: get_assessment_take_def getQuestions_def split: if_splits)
  with Some assms show ?thesis
    by (simp add: get_assessment_def getQuestions_def take_ignores_correctAnswer)
qed

theorem take_redacts_secret_and_answers_witness:
  "get_assessment_take ex_db ''11'' (Some ''abc123'')
     = Payload 200 \<lparr>item = ex_locked\<lparr>password := None\<rparr>,
                    challenges = [candidateQuestion ex_q1, candidateQuestion ex_q2]\<rparr>
   \<and> get_assessment ex_db ''11'' = Payload 200 \<lparr>item = ex_locked, challenges = [ex_q1, ex_q2]\<rparr>
   \<and> password ex_locked = Some ''abc123'' \<and> correctAnswer ex_q1 = Some 1
   \<and> get_assessment_take
        (ex_db\<lparr>questions := map (\<lambda>q. q\<lparr>correctAnswer := None\<rparr>) (questions ex_db)\<rparr>)
        ''11'' (Some ''abc123'')
      = get_assessment_take ex_db ''11'' (Some ''abc123'')"
proof -
  have h: "get_assessment_take ex_db ''11'' (Some ''abc123'')
     = Payload 200 \<lparr>item = ex_locked\<lparr>password := None\<rparr>,
                    challenges = [candidateQuestion ex_q1, candidateQuestion ex_q2]\<rparr>"
    by (simp add: get_assessment_take_def getAssessment_def getQuestions_def selected_def
        truthy_str_def ex_defs)
  have g: "get_assessment ex_db ''11''
             = Payload 200 \<lparr>item = ex_locked, challenges = [ex_q1, ex_q2]\<rparr>"
    by (simp add: get_assessment_def getAssessment_def getQuestions_def selected_def ex_defs)
  have p: "password ex_locked = Some ''abc123''" "correctAnswer ex_q1 = Some 1"
    by (simp_all add: ex_defs)
  from take_redacts_secret_and_answers [OF h] have
    "get_assessment_take
        (ex_db\<lparr>questions := map (\<lambda>q. q\<lparr>correctAnswer := None\<rparr>) (questions ex_db)\<rparr>)
        ''11'' (Some ''abc123'')
      = get_assessment_take ex_db ''11'' (Some ''abc123'')"
    using h by auto
  with h g p show ?thesis by simp
qed

section \<open>Scoring: the denominator and stale references\<close>

lemma length_filter_disjoint:
  assumes "\<And>x. Q x \<Longrightarrow> \<not> P x"
  shows "length (filter P xs) + length (filter Q xs) \<le> length xs"
  by (induction xs) (auto dest: assms)

text \<open>
  Claim C2. An accepted submit request stores one new submission whose \<^verbatim>\<open>totalQuestions\<close>
  is the length of the assessment's \<^verbatim>\<open>selectedChallenges\<close> list, ids that resolve to no
  stored question included, and whose \<^verbatim>\<open>correctCount\<close> is the number of listed ids that
  resolve and are answered with the stored index. An id that does not resolve is never
  counted as correct, so \<^verbatim>\<open>correctCount\<close> plus the number of stale ids is at most the total.
\<close>

theorem submit_total_includes_stale_ids:
  assumes "getAssessment db i = Some a"
    and "trim (or_str (candidateEmail_req body) []) \<noteq> []"
  shows "\<exists>s. submissions (fst (post_assessment_submit env i body db)) = submissions db @ [s]
           \<and> totalQuestions s = length (or_arr (selectedChallenges a) [])
           \<and> correctCount s
               = length (filter (answered_correctly db (or_val (answers_req body) Map.empty))
                           (or_arr (selectedChallenges a) []))
           \<and> (\<forall>q. getQuestion db q = None \<longrightarrow>
                  \<not> answered_correctly db (or_val (answers_req body) Map.empty) q)
           \<and> correctCount s
               + length (filter (\<lambda>q. getQuestion db q = None) (or_arr (selectedChallenges a) []))
               \<le> totalQuestions s"
proof -
  let ?ans = "or_val (answers_req body) Map.empty"
  let ?sel = "or_arr (selectedChallenges a) []"
  have stale: "\<not> answered_correctly db ?ans q" if "getQuestion db q = None" for q
    using that by (simp add: answered_correctly_def)
  have le: "length (filter (answered_correctly db ?ans) ?sel)
          + length (filter (\<lambda>q. getQuestion db q = None) ?sel) \<le> length ?sel"
    by (rule length_filter_disjoint) (simp add: stale)
  show ?thesis
    using le stale
    by (simp add: submit_stores [OF assms] correctCount_of_filter totalQuestions_of_length)
qed

text \<open>The scenario of a question deleted after the assessment was created: the second
  question of the example store is deleted, and a candidate then submits the right answer
  to both listed questions. The total is still 2, and only one answer counts.\<close>

theorem submit_total_includes_stale_ids_witness:
  "getAssessment (fst (delete_challenge ex_env ''2'' ex_db)) ''10'' = Some ex_open
   \<and> trim (or_str (candidateEmail_req ex_submit_right) []) \<noteq> []
   \<and> selectedChallenges ex_open = Some [''2'', ''1'']
   \<and> answered_correctly ex_db (or_val (answers_req ex_submit_right) Map.empty) ''2''
   \<and> getQuestion (fst (delete_challenge ex_env ''2'' ex_db)) ''2'' = None
   \<and> (\<exists>s. submissions (fst (post_assessment_submit ex_env ''10'' ex_submit_right
                                 (fst (delete_challenge ex_env ''2'' ex_db)))) = [s]
          \<and> totalQuestions s = 2 \<and> correctCount s = 1)"
proof -
  define db where "db = fst (delete_challenge ex_env ''2'' ex_db)"
  let ?ans = "or_val (answers_req ex_submit_right) Map.empty"
  have db: "db = ex_db\<lparr>questions := [ex_q1]\<rparr>"
    by (simp add: db_def delete_challenge_def deleteQuestion_def saveCollection_def Let_def
        ex_defs)
  have h1: "getAssessment db ''10'' = Some ex_open"
    by (simp add: db getAssessment_def ex_defs)
  have h2: "trim (or_str (candidateEmail_req ex_submit_right) []) \<noteq> []"
    by (simp add: ex_submit_right_def or_str_def trim_def isWhiteSpace_def)
  have h3: "selectedChallenges ex_open = Some [''2'', ''1'']"
    by (simp add: ex_open_def)
  have h4: "getQuestion db ''2'' = None"
    by (simp add: db getQuestion_def ex_defs)
  have b: "answered_correctly ex_db ?ans ''2''"
    by (simp add: answered_correctly_def getQuestion_def or_val_def ex_submit_right_def ex_defs)
  have c: "length (filter (answered_correctly db ?ans) [''2'', ''1'']) = 1"
    by (simp add: db answered_correctly_def getQuestion_def or_val_def ex_submit_right_def
        ex_defs)
  from submit_total_includes_stale_ids [OF h1 h2, of ex_env]
  obtain s where s:
    "submissions (fst (post_assessment_submit ex_env ''10'' ex_submit_right db))
       = submissions db @ [s]"
    "totalQuestions s = length (or_arr (selectedChallenges ex_open) [])"
    "correctCount s
       = length (filter (answered_correctly db ?ans) (or_arr (selectedChallenges ex_open) []))"
    by blast
  have e: "submissions db = []"
    by (simp add: db ex_db_def)
  have "submissions (fst (post_assessment_submit ex_env ''10'' ex_submit_right db)) = [s]
          \<and> totalQuestions s = 2 \<and> correctCount s = 1"
    using s c by (simp add: h3 e or_arr_def)
  with h1 h2 h3 h4 b show ?thesis
    unfolding db_def by blast
qed

section \<open>Scoring: repeated ids\<close>







section \<open>Presentation order\<close>

lemma find_with_selection:
  "find (\<lambda>a. id_a a = i)
     (map (\<lambda>a. if id_a a = i then a\<lparr>selectedChallenges := Some sel\<rparr> else a) xs)
   = map_option (\<lambda>a. a\<lparr>selectedChallenges := Some sel\<rparr>) (find (\<lambda>a. id_a a = i) xs)"
  by (induction xs) simp_all

lemma getAssessment_with_selection:
  "getAssessment (with_selection db i sel) i
     = map_option (\<lambda>a. a\<lparr>selectedChallenges := Some sel\<rparr>) (getAssessment db i)"
  by (simp add: getAssessment_def with_selection_def find_with_selection)

lemma getQuestion_with_selection [simp]:
  "getQuestion (with_selection db i sel) = getQuestion db"
  by (rule ext) (simp add: getQuestion_def with_selection_def)

lemma answered_correctly_with_selection [simp]:
  "answered_correctly (with_selection db i sel) = answered_correctly db"
  by (intro ext) (simp add: answered_correctly_def)

lemma selected_set:
  "selectedChallenges a = Some sel \<Longrightarrow> selected a = (\<lambda>q. id_q q \<in> set sel)"
  by (rule ext) (simp add: selected_def)

text \<open>
  Claim C8, amended. A granted candidate fetch presents the listed questions in the order
  in which the store holds them (the order of creation), not in the order of
  \<^verbatim>\<open>selectedChallenges\<close>: the list is the store's list filtered by membership, so listing
  the same ids in another order gives the same presentation. Scoring does not depend on
  the order either: after a permutation of the list an accepted submission has the same
  \<^verbatim>\<open>correctCount\<close>, \<^verbatim>\<open>totalQuestions\<close>, \<^verbatim>\<open>score\<close> and \<^verbatim>\<open>passed\<close>.
\<close>

theorem presentation_in_store_order:
  assumes "getAssessment db i = Some a"
    and "selectedChallenges a = Some sel"
    and "mset sel' = mset sel"
    and "trim (or_str (candidateEmail_req body) []) \<noteq> []"
  shows "(\<forall>v. payload (get_assessment_take db i cred) = Some v \<longrightarrow>
            challenges v = map candidateQuestion (filter (\<lambda>q. id_q q \<in> set sel) (questions db))
          \<and> (\<exists>v'. payload (get_assessment_take (with_selection db i sel') i cred) = Some v'
                 \<and> challenges v' = challenges v))
       \<and> (\<exists>s s'. submissions (fst (post_assessment_submit env i body db)) = submissions db @ [s]
            \<and> submissions (fst (post_assessment_submit env i body (with_selection db i sel')))
                = submissions db @ [s']
            \<and> correctCount s' = correctCount s \<and> totalQuestions s' = totalQuestions s
            \<and> score s' = score s \<and> passed s' = passed s)"
proof (intro conjI)
  let ?a' = "a\<lparr>selectedChallenges := Some sel'\<rparr>"
  have a': "getAssessment (with_selection db i sel') i = Some ?a'"
    by (simp add: getAssessment_with_selection assms(1))
  have set_eq: "set sel' = set sel"
    using assms(3) by (rule mset_eq_setD)
  have q': "questions (with_selection db i sel') = questions db"
    by (simp add: with_selection_def)
  show "\<forall>v. payload (get_assessment_take db i cred) = Some v \<longrightarrow>
            challenges v = map candidateQuestion (filter (\<lambda>q. id_q q \<in> set sel) (questions db))
          \<and> (\<exists>v'. payload (get_assessment_take (with_selection db i sel') i cred) = Some v'
                 \<and> challenges v' = challenges v)"
    by (auto simp: get_assessment_take_def assms(1) a' getQuestions_def q' set_eq
        selected_set [OF assms(2)] selected_set [of ?a' sel'])
  let ?ans = "or_val (answers_req body) Map.empty"
  have len: "length sel' = length sel"
    using assms(3) by (rule mset_eq_length)
  have "mset (filter (answered_correctly db ?ans) sel') = mset (filter (answered_correctly db ?ans) sel)"
    using assms(3) by simp
  then have cnt: "length (filter (answered_correctly db ?ans) sel')
                    = length (filter (answered_correctly db ?ans) sel)"
    by (rule mset_eq_length)
  have c: "correctCount_of (with_selection db i sel') ?ans ?a' = correctCount_of db ?ans a"
    by (simp add: correctCount_of_filter or_arr_def assms(2) cnt)
  have t: "totalQuestions_of ?a' = totalQuestions_of a"
    by (simp add: totalQuestions_of_length or_arr_def assms(2) len)
  have p: "passed_of x ?a' = passed_of x a" for x
    by (simp add: passed_of_def)
  have s': "submissions (with_selection db i sel') = submissions db"
    by (simp add: with_selection_def)
  show "\<exists>s s'. submissions (fst (post_assessment_submit env i body db)) = submissions db @ [s]
            \<and> submissions (fst (post_assessment_submit env i body (with_selection db i sel')))
                = submissions db @ [s']
            \<and> correctCount s' = correctCount s \<and> totalQuestions s' = totalQuestions s
            \<and> score s' = score s \<and> passed s' = passed s"
    by (simp add: submit_stores [OF assms(1,4)] submit_stores [OF a' assms(4)] c t p s')
qed

theorem presentation_in_store_order_witness:
  "getAssessment ex_db ''10'' = Some ex_open
   \<and> selectedChallenges ex_open = Some [''2'', ''1'']
   \<and> mset [''1'', ''2''] = mset [''2'', ''1'']
   \<and> trim (or_str (candidateEmail_req ex_submit) []) \<noteq> []
   \<and> payload (get_assessment_take ex_db ''10'' None)
       = Some \<lparr>item = ex_open\<lparr>password := None\<rparr>,
               challenges = [candidateQuestion ex_q1, candidateQuestion ex_q2]\<rparr>
   \<and> (\<exists>v'. payload (get_assessment_take (with_selection ex_db ''10'' [''1'', ''2'']) ''10'' None)
              = Some v'
          \<and> challenges v' = [candidateQuestion ex_q1, candidateQuestion ex_q2])
   \<and> (\<exists>s s'. submissions (fst (post_assessment_submit ex_env ''10'' ex_submit ex_db))
                = submissions ex_db @ [s]
          \<and> submissions (fst (post_assessment_submit ex_env ''10'' ex_submit
                                (with_selection ex_db ''10'' [''1'', ''2''])))
                = submissions ex_db @ [s']
          \<and> correctCount s' = correctCount s \<and> totalQuestions s' = totalQuestions s
          \<and> score s' = score s \<and> passed s' = passed s)"
proof -
  have h1: "getAssessment ex_db ''10'' = Some ex_open"
    by (simp add: getAssessment_def ex_defs)
  have h2: "selectedChallenges ex_open = Some [''2'', ''1'']"
    by (simp add: ex_open_def)
  have h3: "mset [''1'', ''2''] = mset [''2'', ''1'']"
    by (simp add: add_mset_commute)
  have h4: "trim (or_str (candidateEmail_req ex_submit) []) \<noteq> []"
    by (simp add: ex_submit_def or_str_def trim_def isWhiteSpace_def)
  have t: "payload (get_assessment_take ex_db ''10'' None)
       = Some \<lparr>item = ex_open\<lparr>password := None\<rparr>,
               challenges = [candidateQuestion ex_q1, candidateQuestion ex_q2]\<rparr>"
    by (simp add: get_assessment_take_def getAssessment_def getQuestions_def selected_def
        truthy_str_def ex_defs)
  note inst = presentation_in_store_order [OF h1 h2 h3 h4, of None ex_env]
  from inst t have
    "\<exists>v'. payload (get_assessment_take (with_selection ex_db ''10'' [''1'', ''2'']) ''10'' None)
              = Some v'
          \<and> challenges v' = [candidateQuestion ex_q1, candidateQuestion ex_q2]"
    by auto
  with h1 h2 h3 h4 t inst show ?thesis by blast
qed

text \<open>The claim as stated fails: the assessment lists the second question first, and the
  candidate fetch presents the first question first.\<close>

theorem presentation_order_counterexample:
  "getAssessment ex_db ''10'' = Some ex_open
   \<and> selectedChallenges ex_open = Some [''2'', ''1'']
   \<and> get_assessment_take ex_db ''10'' None
       = Payload 200 \<lparr>item = ex_open\<lparr>password := None\<rparr>,
                      challenges = [candidateQuestion ex_q1, candidateQuestion ex_q2]\<rparr>
   \<and> id_c (candidateQuestion ex_q1) = ''1'' \<and> id_c (candidateQuestion ex_q2) = ''2''"
  by (simp add: get_assessment_take_def getAssessment_def getQuestions_def selected_def
      truthy_str_def candidateQuestion_def ex_defs)

section \<open>Identifiers\<close>

lemma digit_less_10:
  assumes "d < 10"
  shows "of_char (digit d) = 48 + d"
proof -
  from assms have "d = 0 \<or> d = 1 \<or> d = 2 \<or> d = 3 \<or> d = 4 \<or> d = 5 \<or> d = 6 \<or> d = 7 \<or> d = 8 \<or> d = 9"
    by arith
  then show ?thesis
    by (elim disjE) (simp_all add: digit_def)
qed

lemma digit_inj:
  assumes "d < 10" and "e < 10" and "digit d = digit e"
  shows "d = e"
proof -
  have "48 + d = (of_char (digit d) :: nat)"
    by (simp only: digit_less_10 [OF assms(1)])
  also have "\<dots> = of_char (digit e)"
    by (simp only: assms(3))
  also have "\<dots> = 48 + e"
    by (rule digit_less_10 [OF assms(2)])
  finally show ?thesis
    by simp
qed

lemma toString_nonempty: "toString n \<noteq> []" "[] \<noteq> toString n"
  by (subst toString.simps, simp)+

lemma toString_inj: "toString m = toString n \<Longrightarrow> m = n"
proof (induction m arbitrary: n rule: toString.induct)
  case (1 m)
  show ?case
  proof (cases "m < 10")
    case m: True
    show ?thesis
    proof (cases "n < 10")
      case True
      with m "1.prems" show ?thesis
        by (simp add: toString.simps [of m] toString.simps [of n] digit_inj)
    next
      case False
      with m "1.prems" show ?thesis
        by (simp add: toString.simps [of m] toString.simps [of n] toString_nonempty)
    qed
  next
    case m: False
    show ?thesis
    proof (cases "n < 10")
      case True
      with m "1.prems" show ?thesis
        by (simp add: toString.simps [of m] toString.simps [of n] toString_nonempty)
    next
      case False
      with m "1.prems" have eq: "toString (m div 10) = toString (n div 10)"
        and d: "digit (m mod 10) = digit (n mod 10)"
        by (simp_all add: toString.simps [of m] toString.simps [of n])
      from "1.IH" [OF m eq] have "m div 10 = n div 10" .
      moreover have "m mod 10 = n mod 10"
        by (rule digit_inj [OF _ _ d]) simp_all
      ultimately show ?thesis
        by (metis div_mult_mod_eq)
    qed
  qed
qed

lemma minted_before_fresh: "minted_before t ids \<Longrightarrow> toString t \<notin> set ids"
  by (auto simp: minted_before_def dest: toString_inj)

lemma minted_before_Nil: "minted_before t []"
  by (simp add: minted_before_def)

lemma minted_before_Cons: "m < t \<Longrightarrow> minted_before t ids \<Longrightarrow> minted_before t (toString m # ids)"
  by (auto simp: minted_before_def)

lemma minted_before_snoc:
  "minted_before t ids \<Longrightarrow> minted_before (Suc t) (ids @ [toString t])"
  by (auto simp: minted_before_def intro: less_SucI)

text \<open>The identifiers of a collection after a create: the new one, the decimal rendering of
  the clock reading, is appended, whatever the collection holds.\<close>

lemma createQuestion_ids:
  "map id_q (questions (fst (createQuestion env q db)))
     = map id_q (questions db) @ [toString (now env)]"
  by (simp add: createQuestion_def Let_def QuestionData.extend_def Question.fields_def)

lemma createAssessment_ids:
  "map id_a (assessments (fst (createAssessment env a db)))
     = map id_a (assessments db) @ [toString (now env)]"
  by (simp add: createAssessment_def Let_def AssessmentData.extend_def Assessment.fields_def)

lemma createSubmission_ids:
  "map id_s (submissions (fst (createSubmission env s db)))
     = map id_s (submissions db) @ [toString (now env)]"
  by (simp add: createSubmission_def Let_def SubmissionData.extend_def Submission.fields_def)

text \<open>What appending the rendering of the reading \<open>t\<close> does to a list of identifiers, and
  what appending it twice does.\<close>

lemma append_minted_id:
  "(distinct (ids @ [toString t]) \<longleftrightarrow> distinct ids \<and> toString t \<notin> set ids)
   \<and> (minted_before t ids \<longrightarrow>
        toString t \<notin> set ids \<and> minted_before (Suc t) (ids @ [toString t]))
   \<and> \<not> distinct ((ids @ [toString t]) @ [toString t])"
  using minted_before_fresh [of t ids] minted_before_snoc [of t ids] by auto

text \<open>
  Claim C9, amended. A create on any collection assigns the decimal rendering of the clock
  reading \<^verbatim>\<open>Date.now()\<close> as identifier, always, and checks nothing. For each collection
  on its own (questions, assessments, submissions): after the create the identifiers are
  pairwise distinct exactly when they were before and the new one was not among them; when
  every identifier of the collection was rendered from an earlier reading, the new one
  collides with none of them, and the collection is again one of identifiers rendered from
  readings before the next millisecond; and two creates at the same reading get the same
  identifier.
\<close>

theorem create_id_fresh_after_clock_advance:
  "(map id_q (questions (fst (createQuestion env q db)))
      = map id_q (questions db) @ [toString (now env)]
    \<and> (distinct (map id_q (questions (fst (createQuestion env q db)))) \<longleftrightarrow>
         distinct (map id_q (questions db)) \<and> toString (now env) \<notin> set (map id_q (questions db)))
    \<and> (minted_before (now env) (map id_q (questions db)) \<longrightarrow>
         toString (now env) \<notin> set (map id_q (questions db))
         \<and> minted_before (Suc (now env)) (map id_q (questions (fst (createQuestion env q db)))))
    \<and> (now env' = now env \<longrightarrow>
         \<not> distinct (map id_q (questions (fst (createQuestion env' q'
                                               (fst (createQuestion env q db))))))))
   \<and> (map id_a (assessments (fst (createAssessment env a db)))
        = map id_a (assessments db) @ [toString (now env)]
      \<and> (distinct (map id_a (assessments (fst (createAssessment env a db)))) \<longleftrightarrow>
           distinct (map id_a (assessments db))
           \<and> toString (now env) \<notin> set (map id_a (assessments db)))
      \<and> (minted_before (now env) (map id_a (assessments db)) \<longrightarrow>
           toString (now env) \<notin> set (map id_a (assessments db))
           \<and> minted_before (Suc (now env))
                (map id_a (assessments (fst (createAssessment env a db)))))
      \<and> (now env' = now env \<longrightarrow>
           \<not> distinct (map id_a (assessments (fst (createAssessment env' a'
                                                   (fst (createAssessment env a db))))))))
   \<and> (map id_s (submissions (fst (createSubmission env s db)))
        = map id_s (submissions db) @ [toString (now env)]
      \<and> (distinct (map id_s (submissions (fst (createSubmission env s db)))) \<longleftrightarrow>
           distinct (map id_s (submissions db))
           \<and> toString (now env) \<notin> set (map id_s (submissions db)))
      \<and> (minted_before (now env) (map id_s (submissions db)) \<longrightarrow>
           toString (now env) \<notin> set (map id_s (submissions db))
           \<and> minted_before (Suc (now env))
                (map id_s (submissions (fst (createSubmission env s db)))))
      \<and> (now env' = now env \<longrightarrow>
           \<not> distinct (map id_s (submissions (fst (createSubmission env' s'
                                                   (fst (createSubmission env s db))))))))"
proof (intro conjI)
  note f = append_minted_id [of _ "now env"]
  show "map id_q (questions (fst (createQuestion env q db)))
          = map id_q (questions db) @ [toString (now env)]"
    by (rule createQuestion_ids)
  show "distinct (map id_q (questions (fst (createQuestion env q db)))) \<longleftrightarrow>
          distinct (map id_q (questions db)) \<and> toString (now env) \<notin> set (map id_q (questions db))"
    unfolding createQuestion_ids using f by blast
  show "minted_before (now env) (map id_q (questions db)) \<longrightarrow>
          toString (now env) \<notin> set (map id_q (questions db))
          \<and> minted_before (Suc (now env)) (map id_q (questions (fst (createQuestion env q db))))"
    unfolding createQuestion_ids using f by blast
  show "now env' = now env \<longrightarrow>
          \<not> distinct (map id_q (questions (fst (createQuestion env' q'
                                                (fst (createQuestion env q db))))))"
    unfolding createQuestion_ids using f by simp
  show "map id_a (assessments (fst (createAssessment env a db)))
          = map id_a (assessments db) @ [toString (now env)]"
    by (rule createAssessment_ids)
  show "distinct (map id_a (assessments (fst (createAssessment env a db)))) \<longleftrightarrow>
          distinct (map id_a (assessments db))
          \<and> toString (now env) \<notin> set (map id_a (assessments db))"
    unfolding createAssessment_ids using f by blast
  show "minted_before (now env) (map id_a (assessments db)) \<longrightarrow>
          toString (now env) \<notin> set (map id_a (assessments db))
          \<and> minted_before (Suc (now env))
               (map id_a (assessments (fst (createAssessment env a db))))"
    unfolding createAssessment_ids using f by blast
  show "now env' = now env \<longrightarrow>
          \<not> distinct (map id_a (assessments (fst (createAssessment env' a'
                                                  (fst (createAssessment env a db))))))"
    unfolding createAssessment_ids using f by simp
  show "map id_s (submissions (fst (createSubmission env s db)))
          = map id_s (submissions db) @ [toString (now env)]"
    by (rule createSubmission_ids)
  show "distinct (map id_s (submissions (fst (createSubmission env s db)))) \<longleftrightarrow>
          distinct (map id_s (submissions db))
          \<and> toString (now env) \<notin> set (map id_s (submissions db))"
    unfolding createSubmission_ids using f by blast
  show "minted_before (now env) (map id_s (submissions db)) \<longrightarrow>
          toString (now env) \<notin> set (map id_s (submissions db))
          \<and> minted_before (Suc (now env))
               (map id_s (submissions (fst (createSubmission env s db))))"
    unfolding createSubmission_ids using f by blast
  show "now env' = now env \<longrightarrow>
          \<not> distinct (map id_s (submissions (fst (createSubmission env' s'
                                                  (fst (createSubmission env s db))))))"
    unfolding createSubmission_ids using f by simp
qed

lemma toString_Suc_0: "toString (Suc 0) = ''1''"
  by (subst toString.simps) (simp add: digit_def)

lemma toString_examples:
  "toString 1 = ''1''" "toString 2 = ''2''" "toString 10 = ''10''" "toString 11 = ''11''"
  "toString 12 = ''12''" "toString 1730000000000 = ''1730000000000''"
  by (simp_all add: toString.simps [of "numeral k" for k] toString_Suc_0 digit_def)

text \<open>On the example store every collection holds identifiers of earlier readings, so a
  create on each gets a fresh identifier. Two creates of a question at the same reading
  collide; the questions are then no longer pairwise distinct, and still a create at the next
  reading gets an identifier that none of them has.\<close>

theorem create_id_fresh_after_clock_advance_witness:
  "minted_before (now ex_env) (map id_q (questions ex_db))
   \<and> minted_before (now ex_env) (map id_a (assessments ex_db))
   \<and> minted_before (now ex_env) (map id_s (submissions ex_db))
   \<and> map id_q (questions (fst (createQuestion ex_env ex_body ex_db)))
       = [''1'', ''2'', ''1730000000000'']
   \<and> distinct (map id_q (questions (fst (createQuestion ex_env ex_body ex_db))))
   \<and> toString (now ex_env) \<notin> set (map id_a (assessments ex_db))
   \<and> toString (now ex_env) \<notin> set (map id_s (submissions ex_db))
   \<and> \<not> distinct (map id_q (questions (fst (createQuestion ex_env ex_body
                                            (fst (createQuestion ex_env ex_body ex_db))))))
   \<and> minted_before (now ex_later)
        (map id_q (questions (fst (createQuestion ex_env ex_body
                                     (fst (createQuestion ex_env ex_body ex_db))))))
   \<and> toString (now ex_later)
        \<notin> set (map id_q (questions (fst (createQuestion ex_env ex_body
                                             (fst (createQuestion ex_env ex_body ex_db))))))"
proof -
  define db2 where "db2 = fst (createQuestion ex_env ex_body
                                 (fst (createQuestion ex_env ex_body ex_db)))"
  have ids: "map id_q (questions ex_db) = [toString 1, toString 2]"
    "map id_a (assessments ex_db) = [toString 10, toString 11, toString 12]"
    "map id_s (submissions ex_db) = []"
    unfolding toString_examples by (simp_all add: ex_defs)
  have n: "now ex_env = 1730000000000" "now ex_later = 1730000000001"
    by (simp_all add: ex_env_def ex_later_def)
  have m1: "minted_before (now ex_env) (map id_q (questions ex_db))"
    unfolding ids n by (intro minted_before_Cons minted_before_Nil) simp_all
  have m2: "minted_before (now ex_env) (map id_a (assessments ex_db))"
    unfolding ids n by (intro minted_before_Cons minted_before_Nil) simp_all
  have m3: "minted_before (now ex_env) (map id_s (submissions ex_db))"
    unfolding ids by (rule minted_before_Nil)
  have d1: "distinct (map id_q (questions ex_db))"
    by (simp add: ex_defs)
  note first = create_id_fresh_after_clock_advance [of ex_env ex_body ex_db ex_env ex_body]
  from first m1 d1
  have c1: "map id_q (questions (fst (createQuestion ex_env ex_body ex_db)))
              = map id_q (questions ex_db) @ [toString (now ex_env)]"
    and c2: "distinct (map id_q (questions (fst (createQuestion ex_env ex_body ex_db))))"
    by blast+
  from c1 have c3: "map id_q (questions (fst (createQuestion ex_env ex_body ex_db)))
                      = [''1'', ''2'', ''1730000000000'']"
    unfolding ids n toString_examples by simp
  from first m2 have f2: "toString (now ex_env) \<notin> set (map id_a (assessments ex_db))"
    by blast
  from first m3 have f3: "toString (now ex_env) \<notin> set (map id_s (submissions ex_db))"
    by blast
  from first have col: "\<not> distinct (map id_q (questions db2))"
    unfolding db2_def by blast
  have ids2: "map id_q (questions db2)
                = [toString 1, toString 2, toString 1730000000000, toString 1730000000000]"
    unfolding db2_def createQuestion_ids ids n by simp
  have m4: "minted_before (now ex_later) (map id_q (questions db2))"
    unfolding ids2 n by (intro minted_before_Cons minted_before_Nil) simp_all
  from create_id_fresh_after_clock_advance [of ex_later ex_body db2] m4
  have f4: "toString (now ex_later) \<notin> set (map id_q (questions db2))"
    by blast
  from m1 m2 m3 c3 c2 f2 f3 col m4 f4 show ?thesis
    unfolding db2_def by blast
qed

text \<open>The claim as stated fails: two questions created at the same clock reading get the
  same identifier.\<close>

theorem create_id_collision_counterexample:
  "map id_q (questions (fst (post_challenges ex_env ex_body
                               (fst (post_challenges ex_env ex_body ex_db)))))
     = [''1'', ''2'', ''1730000000000'', ''1730000000000'']
   \<and> \<not> distinct (map id_q (questions (fst (post_challenges ex_env ex_body
                                            (fst (post_challenges ex_env ex_body ex_db))))))"
  by (simp add: post_challenges_def createQuestion_def saveCollection_def Let_def
      QuestionData.extend_def Question.fields_def toString_examples ex_defs)

section \<open>Creating questions\<close>

lemma find_append_fresh:
  "find P xs = None \<Longrightarrow> find P (xs @ [x]) = (if P x then Some x else None)"
  by (induction xs) (auto split: if_splits)

lemma getQuestion_None_iff: "getQuestion db i = None \<longleftrightarrow> i \<notin> set (map id_q (questions db))"
  by (auto simp: getQuestion_def find_None_iff)

text \<open>
  Claim C4, amended. The create-question operation validates nothing and rejects no
  input: it appends one question whose \<^verbatim>\<open>options\<close> and \<^verbatim>\<open>correctAnswer\<close> are the supplied
  ones (an absent list becoming the empty list, an absent or zero index 0) and answers
  201, or 500 when the file cannot be written. The stored record therefore satisfies
  \<open>0 \<le> correctAnswer < len(options)\<close> exactly when the supplied values do, and a get with
  the new id returns the record when no stored question had that id before.
\<close>

theorem create_question_stores_unvalidated:
  "\<exists>q. questions (fst (post_challenges env body db)) = questions db @ [q]
       \<and> snd (post_challenges env body db)
           = (if disk_ok env then Payload 201 q else Error 500 ''Failed to create question'')
       \<and> id_q q = toString (now env)
       \<and> options q = Some (or_arr (options body) [])
       \<and> correctAnswer q = Some (or_num (correctAnswer body) 0)
       \<and> (valid_answer_index q \<longleftrightarrow>
            0 \<le> or_num (correctAnswer body) 0
            \<and> or_num (correctAnswer body) 0 < int (length (or_arr (options body) [])))
       \<and> (toString (now env) \<notin> set (map id_q (questions db)) \<longrightarrow>
            get_challenge (fst (post_challenges env body db)) (id_q q) = Payload 200 q)"
proof -
  let ?q = "\<lparr>question = Some (or_str (question body) []),
             options = Some (or_arr (options body) []),
             correctAnswer = Some (or_num (correctAnswer body) 0),
             difficulty = Some (or_val (difficulty body) medium),
             category = Some (or_str (category body) ''General''),
             id_q = toString (now env), createdAt_q = iso env, updatedAt_q = None\<rparr>"
  have st: "questions (fst (post_challenges env body db)) = questions db @ [?q]"
    by (simp add: post_challenges_def createQuestion_def Let_def QuestionData.extend_def
        Question.fields_def split: sum.splits)
  have re: "snd (post_challenges env body db)
              = (if disk_ok env then Payload 201 ?q else Error 500 ''Failed to create question'')"
    by (simp add: post_challenges_def createQuestion_def saveCollection_def Let_def
        QuestionData.extend_def Question.fields_def)
  have rt: "get_challenge (fst (post_challenges env body db)) (toString (now env)) = Payload 200 ?q"
    if "toString (now env) \<notin> set (map id_q (questions db))"
  proof -
    from that have "find (\<lambda>q. id_q q = toString (now env)) (questions db) = None"
      using getQuestion_None_iff [of db "toString (now env)"] by (simp add: getQuestion_def)
    then show ?thesis
      by (simp add: get_challenge_def getQuestion_def st find_append_fresh)
  qed
  have "questions (fst (post_challenges env body db)) = questions db @ [?q]
       \<and> snd (post_challenges env body db)
           = (if disk_ok env then Payload 201 ?q else Error 500 ''Failed to create question'')
       \<and> id_q ?q = toString (now env)
       \<and> options ?q = Some (or_arr (options body) [])
       \<and> correctAnswer ?q = Some (or_num (correctAnswer body) 0)
       \<and> (valid_answer_index ?q \<longleftrightarrow>
            0 \<le> or_num (correctAnswer body) 0
            \<and> or_num (correctAnswer body) 0 < int (length (or_arr (options body) [])))
       \<and> (toString (now env) \<notin> set (map id_q (questions db)) \<longrightarrow>
            get_challenge (fst (post_challenges env body db)) (id_q ?q) = Payload 200 ?q)"
    using st re rt by (simp add: valid_answer_index_def)
  then show ?thesis
    by (rule exI)
qed

theorem create_question_stores_unvalidated_witness:
  "toString (now ex_env) \<notin> set (map id_q (questions ex_db))
   \<and> (\<exists>q. snd (post_challenges ex_env ex_body ex_db) = Payload 201 q
          \<and> options q = Some [''3'', ''4'', ''5'', ''6''] \<and> correctAnswer q = Some 1
          \<and> valid_answer_index q
          \<and> get_challenge (fst (post_challenges ex_env ex_body ex_db)) (id_q q) = Payload 200 q)"
proof -
  have f: "toString (now ex_env) \<notin> set (map id_q (questions ex_db))"
    by (simp add: toString_examples ex_defs)
  have d: "disk_ok ex_env"
    by (simp add: ex_env_def)
  have b: "or_arr (options ex_body) [] = [''3'', ''4'', ''5'', ''6'']"
    "or_num (correctAnswer ex_body) 0 = 1"
    by (simp_all add: or_arr_def or_num_def ex_body_def)
  from create_question_stores_unvalidated [of ex_env ex_body ex_db]
  obtain q where q: "snd (post_challenges ex_env ex_body ex_db)
           = (if disk_ok ex_env then Payload 201 q else Error 500 ''Failed to create question'')"
    "options q = Some (or_arr (options ex_body) [])"
    "correctAnswer q = Some (or_num (correctAnswer ex_body) 0)"
    "valid_answer_index q \<longleftrightarrow>
       0 \<le> or_num (correctAnswer ex_body) 0
       \<and> or_num (correctAnswer ex_body) 0 < int (length (or_arr (options ex_body) []))"
    "toString (now ex_env) \<notin> set (map id_q (questions ex_db)) \<longrightarrow>
       get_challenge (fst (post_challenges ex_env ex_body ex_db)) (id_q q) = Payload 200 q"
    by blast
  have "snd (post_challenges ex_env ex_body ex_db) = Payload 201 q
          \<and> options q = Some [''3'', ''4'', ''5'', ''6''] \<and> correctAnswer q = Some 1
          \<and> valid_answer_index q
          \<and> get_challenge (fst (post_challenges ex_env ex_body ex_db)) (id_q q) = Payload 200 q"
    using q f d by (simp add: b)
  with f show ?thesis by blast
qed

text \<open>The claim as stated fails: the empty body is accepted with 201, and the question it
  stores, which a get returns, has no option for its \<^verbatim>\<open>correctAnswer\<close> to index; the store
  satisfied the invariant before the request and does not after it.\<close>

theorem create_question_invalid_counterexample:
  "post_challenges ex_env ex_nobody ex_db
     = (ex_db\<lparr>questions := [ex_q1, ex_q2, ex_created]\<rparr>, Payload 201 ex_created)
   \<and> options ex_created = Some [] \<and> correctAnswer ex_created = Some 0
   \<and> \<not> valid_answer_index ex_created
   \<and> get_challenge (fst (post_challenges ex_env ex_nobody ex_db)) ''1730000000000''
       = Payload 200 ex_created
   \<and> list_all valid_answer_index (questions ex_db)
   \<and> \<not> list_all valid_answer_index (questions (fst (post_challenges ex_env ex_nobody ex_db)))"
proof -
  have p: "post_challenges ex_env ex_nobody ex_db
     = (ex_db\<lparr>questions := [ex_q1, ex_q2, ex_created]\<rparr>, Payload 201 ex_created)"
    by (simp add: post_challenges_def createQuestion_def saveCollection_def Let_def
        QuestionData.extend_def Question.fields_def or_str_def or_arr_def or_num_def or_val_def
        toString_examples ex_nobody_def ex_created_def ex_defs)
  have v: "\<not> valid_answer_index ex_created" "valid_answer_index ex_q1" "valid_answer_index ex_q2"
    by (simp_all add: valid_answer_index_def ex_created_def ex_defs)
  have g: "get_challenge (ex_db\<lparr>questions := [ex_q1, ex_q2, ex_created]\<rparr>) ''1730000000000''
             = Payload 200 ex_created"
    by (simp add: get_challenge_def getQuestion_def ex_created_def ex_defs)
  have o: "options ex_created = Some []" "correctAnswer ex_created = Some 0"
    by (simp_all add: ex_created_def)
  have q: "questions ex_db = [ex_q1, ex_q2]"
    by (simp add: ex_db_def)
  show ?thesis
    unfolding p using v g o by (simp add: q)
qed

section \<open>Updating questions\<close>

lemma findIndex_None_iff: "findIndex P xs = None \<longleftrightarrow> find P xs = None"
  by (induction xs) auto

lemma findIndex_Some:
  "findIndex P xs = Some k \<Longrightarrow> k < length xs \<and> P (xs ! k) \<and> find P xs = Some (xs ! k)"
  by (induction xs arbitrary: k) (auto split: if_splits)

text \<open>An update of an id that resolves to no question answers 404 and leaves the store as it
  is.\<close>

lemma put_challenge_not_found:
  assumes "getQuestion db i = None"
  shows "put_challenge env i body db = (db, Error 404 ''Question not found'')"
  using assms findIndex_None_iff [of "\<lambda>q. id_q q = i" "questions db"]
  by (simp add: put_challenge_def updateQuestion_def getQuestion_def)

text \<open>The store method keeps every property whose key the \<^verbatim>\<open>updates\<close> object does not
  have.\<close>

lemma updateQuestion_keeps_missing:
  assumes "findIndex (\<lambda>q. id_q q = i) (questions db) = Some k"
  shows "questions (fst (updateQuestion env i
            \<lparr>question_upd = Present (Some t), options_upd = Missing, correctAnswer_upd = Missing,
             difficulty_upd = Missing, category_upd = Missing\<rparr> db))
         = (questions db)[k := (questions db ! k)\<lparr>question := Some t, updatedAt_q := Some (iso env)\<rparr>]"
  using assms by (simp add: updateQuestion_def Let_def)

text \<open>The handler hands over an object that has all five keys, so the update replaces all
  five properties by what the body holds, \<^verbatim>\<open>undefined\<close> for what it does not supply.\<close>

lemma put_challenge_overwrites:
  assumes "findIndex (\<lambda>q. id_q q = i) (questions db) = Some k"
  shows "questions (fst (put_challenge env i body db))
         = (questions db)[k := (questions db ! k)
              \<lparr>question := question body, options := options body,
               correctAnswer := correctAnswer body, difficulty := difficulty body,
               category := category body, updatedAt_q := Some (iso env)\<rparr>]"
  using assms
  by (simp add: put_challenge_def updateQuestion_def Let_def split: sum.splits)

text \<open>
  Claim C3, at the request \<^verbatim>\<open>PUT /api/challenges/1\<close> with the body \<^verbatim>\<open>{"question": "2 + 3?"}\<close>:
  the stored question had options, a correct answer, a difficulty and a category; the
  stored and returned question has none of them any more.
\<close>

theorem put_challenge_drops_unsupplied_fields:
  "getQuestion ex_db ''1'' = Some ex_q1
   \<and> options ex_q1 = Some [''3'', ''4'', ''5''] \<and> correctAnswer ex_q1 = Some 1
   \<and> difficulty ex_q1 = Some easy \<and> category ex_q1 = Some ''Math''
   \<and> options ex_patch = None \<and> correctAnswer ex_patch = None
   \<and> difficulty ex_patch = None \<and> category ex_patch = None
   \<and> put_challenge ex_env ''1'' ex_patch ex_db
       = (ex_db\<lparr>questions := [ex_patched, ex_q2]\<rparr>, Payload 200 ex_patched)
   \<and> options ex_patched = None \<and> correctAnswer ex_patched = None
   \<and> difficulty ex_patched = None \<and> category ex_patched = None"
  by (simp add: put_challenge_def updateQuestion_def saveCollection_def getQuestion_def Let_def
      ex_patch_def ex_patched_def ex_defs)

section \<open>Scoring: the percentage\<close>

subsection \<open>The rounding of number arithmetic\<close>

text \<open>\<open>ilog2\<close> is the binary exponent: \<open>2 ^ ilog2 x \<le> x < 2 ^ (ilog2 x + 1)\<close>.\<close>

lemma bitlen_powi_bounds:
  fixes p :: int
  assumes "0 < p"
  shows "(2::rat) powi (bitlen p - 1) \<le> of_int p" and "of_int p < (2::rat) powi (bitlen p)"
proof -
  from assms have b: "1 \<le> bitlen p"
    by (simp add: bitlen_alt_def)
  from bitlen_bounds [OF assms]
  have lo: "2 ^ nat (bitlen p - 1) \<le> p" and hi: "p < 2 ^ nat (bitlen p)"
    by simp_all
  from lo have "(of_int (2 ^ nat (bitlen p - 1)) :: rat) \<le> of_int p"
    by (simp only: of_int_le_iff)
  then show "(2::rat) powi (bitlen p - 1) \<le> of_int p"
    using b by (simp add: power_int_def)
  from hi have "(of_int p :: rat) < of_int (2 ^ nat (bitlen p))"
    by (simp only: of_int_less_iff)
  then show "of_int p < (2::rat) powi (bitlen p)"
    using b by (simp add: power_int_def)
qed

lemma ilog2_bounds:
  assumes "0 < x"
  shows "2 powi ilog2 x \<le> x" and "x < 2 powi (ilog2 x + 1)"
proof -
  obtain p q where pq: "quotient_of x = (p, q)"
    by (cases "quotient_of x")
  then have q: "0 < q" and x: "x = of_int p / of_int q"
    by (simp_all add: quotient_of_denom_pos quotient_of_div)
  with assms have p: "0 < p"
    by (simp add: zero_less_divide_iff)
  let ?d = "bitlen p - bitlen q"
  have qpos: "(0::rat) < of_int q"
    using q by simp
  have "(2::rat) powi (?d - 1) = 2 powi ((bitlen p - 1) - bitlen q)"
    by (simp add: algebra_simps)
  also have "\<dots> = 2 powi (bitlen p - 1) / 2 powi bitlen q"
    by (rule power_int_diff) simp
  also have "\<dots> \<le> of_int p / 2 powi bitlen q"
    using bitlen_powi_bounds(1) [OF p] by (simp add: divide_right_mono)
  also have "\<dots> \<le> of_int p / of_int q"
    using bitlen_powi_bounds(2) [OF q] p qpos by (simp add: frac_le)
  finally have lo: "(2::rat) powi (?d - 1) \<le> x"
    by (simp add: x)
  have "x = of_int p / of_int q"
    by (rule x)
  also have "\<dots> \<le> of_int p / 2 powi (bitlen q - 1)"
    using bitlen_powi_bounds(1) [OF q] p by (simp add: frac_le)
  also have "\<dots> < 2 powi bitlen p / 2 powi (bitlen q - 1)"
    using bitlen_powi_bounds(2) [OF p] by (simp add: divide_strict_right_mono)
  also have "\<dots> = 2 powi (bitlen p - (bitlen q - 1))"
    by (rule power_int_diff [symmetric]) simp
  also have "\<dots> = 2 powi (?d + 1)"
    by (simp add: algebra_simps)
  finally have hi: "x < 2 powi (?d + 1)" .
  have e: "ilog2 x = (if 2 powi ?d \<le> x then ?d else ?d - 1)"
    by (simp add: ilog2_def pq Let_def)
  show "2 powi ilog2 x \<le> x"
    using lo by (simp add: e)
  show "x < 2 powi (ilog2 x + 1)"
    using hi by (simp add: e not_le)
qed

text \<open>Rounding to 53 significant bits changes a value by at most its \<open>2 ^ 53\<close>-th part.\<close>

lemma roundTiesToEven_error: "\<bar>of_int (roundTiesToEven y) - y\<bar> \<le> 1 / 2"
proof -
  have "of_int \<lfloor>y\<rfloor> \<le> y" "y < of_int \<lfloor>y\<rfloor> + 1"
    by linarith+
  then show ?thesis
    by (auto simp: roundTiesToEven_def Let_def abs_le_iff)
qed

lemma fl64_error:
  assumes "0 \<le> x"
  shows "\<bar>fl64 x - x\<bar> \<le> x / 2 ^ 53"
proof (cases "x = 0")
  case True
  then show ?thesis by (simp add: fl64_def)
next
  case False
  with assms have pos: "0 < x" by simp
  define u :: rat where "u = 2 powi (ilog2 x - 52)"
  have u: "0 < u"
    by (simp add: u_def)
  have f: "fl64 x = of_int (roundTiesToEven (x / u)) * u"
    using pos by (simp add: fl64_def u_def Let_def)
  have "fl64 x - x = (of_int (roundTiesToEven (x / u)) - x / u) * u"
    using u by (simp add: f algebra_simps)
  then have "\<bar>fl64 x - x\<bar> = \<bar>of_int (roundTiesToEven (x / u)) - x / u\<bar> * u"
    using u by (simp add: abs_mult)
  also have "\<dots> \<le> 1 / 2 * u"
    using roundTiesToEven_error [of "x / u"] u by (simp add: mult_right_mono)
  also have "\<dots> = 2 powi ilog2 x / 2 ^ 53"
    by (simp add: u_def power_int_diff)
  also have "\<dots> \<le> x / 2 ^ 53"
    using ilog2_bounds(1) [OF pos] by (simp add: divide_right_mono)
  finally show ?thesis .
qed


text \<open>The percentage \<^verbatim>\<open>(correctCount / totalQuestions) * 100\<close> as computed differs from the exact
  one by less than \<open>2 ^ -45\<close>. So \<^verbatim>\<open>Math.round\<close> of it is the exact percentage rounded half
  up, unless the exact percentage lies halfway between two integers: there the computed
  product can fall just below the half, and the score is the rounded percentage or one
  less.\<close>

lemma pow2_53: "(2::rat) ^ 53 = 9007199254740992"
  by simp

lemma pow2_45: "(2::rat) ^ 45 = 35184372088832"
  by simp

lemma percent_error:
  fixes c t :: nat
  assumes "0 < t" and "c \<le> t"
  shows "\<bar>js_mul (js_div (of_nat c) (of_nat t)) 100 - 100 * of_nat c / of_nat t\<bar> < 1 / 2 ^ 45"
proof -
  define x :: rat where "x = of_nat c / of_nat t"
  define y where "y = fl64 x"
  define z where "z = fl64 (y * 100)"
  have x: "0 \<le> x" "x \<le> 1"
    using assms by (simp_all add: x_def)
  have ey: "\<bar>y - x\<bar> \<le> x / 2 ^ 53"
    unfolding y_def by (rule fl64_error [OF x(1)])
  with x have y: "0 \<le> y"
    unfolding pow2_53 by linarith
  have ez: "\<bar>z - y * 100\<bar> \<le> y * 100 / 2 ^ 53"
    unfolding z_def by (rule fl64_error) (use y in simp)
  from x ey ez have "\<bar>z - 100 * x\<bar> < 1 / 2 ^ 45"
    unfolding pow2_53 pow2_45 by linarith
  then show ?thesis
    by (simp add: js_mul_def js_div_def z_def y_def x_def)
qed

lemma score_of_exact:
  fixes c t :: nat
  assumes "0 < t" and "c \<le> t" and "t \<le> 2 ^ 44"
    and "(200 * c + t) mod (2 * t) \<noteq> 0"
  shows "score_of c t = (200 * int c + int t) div (2 * int t)"
proof -
  define N D k r where "N = 200 * int c + int t" and "D = 2 * int t"
    and "k = N div D" and "r = N mod D"
  define z where "z = js_mul (js_div (of_nat c) (of_nat t)) 100"
  have D: "0 < D" "D \<le> 2 ^ 45"
    using assms(1,3) by (simp_all add: D_def)
  have "r = int ((200 * c + t) mod (2 * t))"
    by (simp add: r_def N_def D_def zmod_int)
  with assms(4) have "r \<noteq> 0"
    by simp
  moreover have "0 \<le> r" "r < D"
    using D(1) by (simp_all add: r_def)
  ultimately have r: "1 \<le> r" "r \<le> D - 1"
    by linarith+
  have "N = k * D + r"
    by (simp add: k_def r_def)
  then have "(of_int N :: rat) = of_int k * of_int D + of_int r"
    by (simp only: of_int_add of_int_mult)
  then have q: "(of_int N :: rat) / of_int D = of_int k + of_int r / of_int D"
    using D(1) by (simp add: field_simps)
  have p: "(of_int N :: rat) / of_int D = 100 * of_nat c / of_nat t + 1 / 2"
    using assms(1) by (simp add: N_def D_def field_simps)
  have lo: "1 / (of_int D :: rat) \<le> of_int r / of_int D"
    using r(1) D(1) by (simp add: divide_right_mono)
  have "(of_int r :: rat) / of_int D \<le> (of_int D - 1) / of_int D"
    using r(2) D(1) by (intro divide_right_mono) (simp_all add: of_int_le_iff [symmetric] del: of_int_le_iff)
  also have "\<dots> = 1 - 1 / of_int D"
    using D(1) by (simp add: field_simps)
  finally have hi: "(of_int r :: rat) / of_int D \<le> 1 - 1 / of_int D" .
  have "(of_int D :: rat) \<le> 2 ^ 45"
    using D(2) by (simp add: of_int_le_iff [symmetric] del: of_int_le_iff)
  then have inv: "1 / 2 ^ 45 \<le> 1 / (of_int D :: rat)"
    using D(1) by (intro divide_left_mono) simp_all
  have e: "\<bar>z - 100 * of_nat c / of_nat t\<bar> < 1 / 2 ^ 45"
    unfolding z_def by (rule percent_error [OF assms(1,2)])
  have "of_int k \<le> z + 1 / 2 \<and> z + 1 / 2 < of_int k + 1"
    using p q lo hi inv e unfolding pow2_45 by linarith
  then have "\<lfloor>z + 1 / 2\<rfloor> = k"
    by (intro floor_unique) simp_all
  then show ?thesis
    using assms(1) by (simp add: score_of_def Math_round_def z_def k_def N_def D_def)
qed

lemma score_of_tie:
  fixes c t :: nat
  assumes "0 < t" and "c \<le> t" and "(200 * c + t) mod (2 * t) = 0"
  shows "score_of c t = (200 * int c + int t) div (2 * int t)
       \<or> score_of c t = (200 * int c + int t) div (2 * int t) - 1"
proof -
  define N D k where "N = 200 * int c + int t" and "D = 2 * int t" and "k = N div D"
  define z where "z = js_mul (js_div (of_nat c) (of_nat t)) 100"
  have D: "0 < D"
    using assms(1) by (simp add: D_def)
  have "N mod D = int ((200 * c + t) mod (2 * t))"
    by (simp add: N_def D_def zmod_int)
  with assms(3) have "N = k * D"
    using div_mult_mod_eq [of N D] by (simp add: k_def)
  then have "(of_int N :: rat) = of_int k * of_int D"
    by (simp only: of_int_mult)
  then have q: "(of_int N :: rat) / of_int D = of_int k"
    using D by simp
  have p: "(of_int N :: rat) / of_int D = 100 * of_nat c / of_nat t + 1 / 2"
    using assms(1) by (simp add: N_def D_def field_simps)
  have e: "\<bar>z - 100 * of_nat c / of_nat t\<bar> < 1 / 2 ^ 45"
    unfolding z_def by (rule percent_error [OF assms(1,2)])
  have b: "of_int (k - 1) \<le> z + 1 / 2" "z + 1 / 2 < of_int (k + 1)"
    using p q e unfolding pow2_45 of_int_diff of_int_add of_int_1 by linarith+
  have "k - 1 \<le> \<lfloor>z + 1 / 2\<rfloor>" "\<lfloor>z + 1 / 2\<rfloor> < k + 1"
    using b by (simp_all only: le_floor_iff floor_less_iff)
  then have "\<lfloor>z + 1 / 2\<rfloor> = k \<or> \<lfloor>z + 1 / 2\<rfloor> = k - 1"
    by linarith
  then show ?thesis
    using assms(1) by (simp add: score_of_def Math_round_def z_def k_def N_def D_def)
qed

lemma score_of_range:
  fixes c t :: nat
  assumes "c \<le> t"
  shows "0 \<le> score_of c t \<and> score_of c t \<le> 100"
proof (cases "0 < t")
  case False
  then show ?thesis by (simp add: score_of_def)
next
  case True
  define z where "z = js_mul (js_div (of_nat c) (of_nat t)) 100"
  define x :: rat where "x = of_nat c / of_nat t"
  have x: "0 \<le> x" "x \<le> 1"
    using assms True by (simp_all add: x_def)
  have e: "\<bar>z - 100 * x\<bar> < 1 / 2 ^ 45"
    using percent_error [OF True assms] by (simp add: z_def x_def)
  have b: "of_int 0 \<le> z + 1 / 2" "z + 1 / 2 < of_int 101"
    using x e unfolding pow2_45 of_int_0 of_int_numeral by linarith+
  have "0 \<le> \<lfloor>z + 1 / 2\<rfloor>" "\<lfloor>z + 1 / 2\<rfloor> < 101"
    using b by (simp_all only: le_floor_iff floor_less_iff)
  then show ?thesis
    using True by (simp add: score_of_def Math_round_def z_def)
qed

text \<open>For comparison with any implementation of binary64: the number \<^verbatim>\<open>0.1\<close>, and the
  percentage computed for 23 correct answers out of 40, which is the value next below 57.5
  (\<^verbatim>\<open>57.49999999999999\<close>).\<close>

lemma fl64_tenth: "fl64 (1 / 10) = 3602879701896397 / 36028797018963968"
  by code_simp

lemma percent_23_40: "js_mul (js_div 23 40) 100 = 8092405580431359 / 140737488355328"
  by code_simp

lemma score_of_23_40: "score_of 23 40 = 57"
  by code_simp

subsection \<open>Score and pass flag of a stored submission\<close>

lemma correctCount_of_le: "correctCount_of db ans a \<le> totalQuestions_of a"
  by (simp add: correctCount_of_filter totalQuestions_of_length)

lemma passed_of_cases:
  "passed_of sc a =
     (case passingScore a of None \<Rightarrow> 70 \<le> sc | Some p \<Rightarrow> if p = 0 then 70 \<le> sc else p \<le> sc)"
  by (simp add: passed_of_def or_num_def split: option.splits)

text \<open>
  Claim C1, amended. An accepted submit request (existing assessment, candidate email not
  blank) stores one submission. Its \<^verbatim>\<open>score\<close> is 0 when \<^verbatim>\<open>totalQuestions\<close> is 0 and otherwise
  \<^verbatim>\<open>Math.round((correctCount / totalQuestions) * 100)\<close> as number arithmetic computes it:
  an integer from 0 to 100, equal to the exact percentage rounded half up whenever that
  percentage does not lie halfway between two integers (for up to \<open>2 ^ 44\<close> questions; an
  array has fewer than \<open>2 ^ 32\<close> elements). Its \<^verbatim>\<open>passed\<close> flag is
  \<open>score \<ge> passingScore\<close> for a passing score other than zero, and \<open>score \<ge> 70\<close> when the
  passing score is zero or missing. With an empty question list the score is 0 and
  \<^verbatim>\<open>passed\<close> is true exactly when the passing score is negative.
\<close>

theorem submit_score_and_passed:
  assumes "getAssessment db i = Some a"
    and "trim (or_str (candidateEmail_req body) []) \<noteq> []"
  shows "\<exists>s. submissions (fst (post_assessment_submit env i body db)) = submissions db @ [s]
           \<and> correctCount s \<le> totalQuestions s
           \<and> score s
               = (if 0 < totalQuestions s
                  then Math_round (js_mul (js_div (of_nat (correctCount s))
                                             (of_nat (totalQuestions s))) 100)
                  else 0)
           \<and> 0 \<le> score s \<and> score s \<le> 100
           \<and> (0 < totalQuestions s \<and> totalQuestions s \<le> 2 ^ 44
                \<and> (200 * correctCount s + totalQuestions s) mod (2 * totalQuestions s) \<noteq> 0
                \<longrightarrow> score s = (200 * int (correctCount s) + int (totalQuestions s))
                                 div (2 * int (totalQuestions s)))
           \<and> passed s
               = (case passingScore a of
                    None \<Rightarrow> 70 \<le> score s
                  | Some p \<Rightarrow> if p = 0 then 70 \<le> score s else p \<le> score s)
           \<and> (totalQuestions s = 0 \<longrightarrow>
                  score s = 0 \<and> (passed s \<longleftrightarrow> (\<exists>p. passingScore a = Some p \<and> p < 0)))"
proof -
  let ?c = "correctCount_of db (or_val (answers_req body) Map.empty) a"
  let ?t = "totalQuestions_of a"
  have le: "?c \<le> ?t"
    by (rule correctCount_of_le)
  have sc: "score_of ?c ?t
              = (if 0 < ?t then Math_round (js_mul (js_div (of_nat ?c) (of_nat ?t)) 100) else 0)"
    by (simp add: score_of_def)
  have rg: "0 \<le> score_of ?c ?t \<and> score_of ?c ?t \<le> 100"
    by (rule score_of_range [OF le])
  have ex: "0 < ?t \<and> ?t \<le> 2 ^ 44 \<and> (200 * ?c + ?t) mod (2 * ?t) \<noteq> 0
              \<longrightarrow> score_of ?c ?t = (200 * int ?c + int ?t) div (2 * int ?t)"
    using score_of_exact [OF _ le] by blast
  have em: "?t = 0 \<longrightarrow> score_of ?c ?t = 0
              \<and> (passed_of (score_of ?c ?t) a \<longleftrightarrow> (\<exists>p. passingScore a = Some p \<and> p < 0))"
    by (cases "passingScore a") (auto simp: score_of_def passed_of_def or_num_def)
  define s where "s =
     \<lparr>assessmentId = i, candidateEmail = trim (or_str (candidateEmail_req body) []),
      answers = or_val (answers_req body) Map.empty, score = score_of ?c ?t,
      correctCount = ?c, totalQuestions = ?t, passed = passed_of (score_of ?c ?t) a,
      id_s = toString (now env), submittedAt = iso env\<rparr>"
  have f: "correctCount s = ?c" "totalQuestions s = ?t" "score s = score_of ?c ?t"
    "passed s = passed_of (score_of ?c ?t) a"
    by (simp_all add: s_def)
  have st: "submissions (fst (post_assessment_submit env i body db)) = submissions db @ [s]"
    unfolding s_def by (rule submit_stores [OF assms])
  show ?thesis
  proof (intro exI [of _ s] conjI)
    show "submissions (fst (post_assessment_submit env i body db)) = submissions db @ [s]"
      by (rule st)
    show "correctCount s \<le> totalQuestions s"
      unfolding f by (rule le)
    show "score s = (if 0 < totalQuestions s
                     then Math_round (js_mul (js_div (of_nat (correctCount s))
                                                (of_nat (totalQuestions s))) 100)
                     else 0)"
      unfolding f by (rule sc)
    show "0 \<le> score s" "score s \<le> 100"
      unfolding f using rg by blast+
    show "0 < totalQuestions s \<and> totalQuestions s \<le> 2 ^ 44
            \<and> (200 * correctCount s + totalQuestions s) mod (2 * totalQuestions s) \<noteq> 0
            \<longrightarrow> score s = (200 * int (correctCount s) + int (totalQuestions s))
                             div (2 * int (totalQuestions s))"
      unfolding f by (rule ex)
    show "passed s = (case passingScore a of
                        None \<Rightarrow> 70 \<le> score s
                      | Some p \<Rightarrow> if p = 0 then 70 \<le> score s else p \<le> score s)"
      unfolding f by (rule passed_of_cases)
    show "totalQuestions s = 0 \<longrightarrow>
            score s = 0 \<and> (passed s \<longleftrightarrow> (\<exists>p. passingScore a = Some p \<and> p < 0))"
      unfolding f by (rule em)
  qed
qed

theorem submit_score_and_passed_witness:
  "getAssessment ex_db ''11'' = Some ex_locked
   \<and> trim (or_str (candidateEmail_req ex_submit) []) \<noteq> []
   \<and> passingScore ex_locked = Some 70
   \<and> (\<exists>s. submissions (fst (post_assessment_submit ex_env ''11'' ex_submit ex_db)) = [s]
          \<and> correctCount s = 1 \<and> totalQuestions s = 4 \<and> score s = 25 \<and> passed s = False)"
proof -
  have h1: "getAssessment ex_db ''11'' = Some ex_locked"
    by (simp add: getAssessment_def ex_defs)
  have h2: "trim (or_str (candidateEmail_req ex_submit) []) \<noteq> []"
    by (simp add: ex_submit_def or_str_def trim_def isWhiteSpace_def)
  have h3: "passingScore ex_locked = Some 70"
    by (simp add: ex_locked_def)
  have e: "submissions ex_db = []"
    by (simp add: ex_db_def)
  have c: "correctCount_of ex_db (or_val (answers_req ex_submit) Map.empty) ex_locked = 1"
    by (simp add: correctCount_of_filter answered_correctly_def getQuestion_def or_val_def
        or_arr_def ex_defs)
  have t: "totalQuestions_of ex_locked = 4"
    by (simp add: totalQuestions_of_def ex_locked_def)
  from submit_score_and_passed [OF h1 h2, of ex_env]
  obtain s where s:
    "submissions (fst (post_assessment_submit ex_env ''11'' ex_submit ex_db))
       = submissions ex_db @ [s]"
    "0 < totalQuestions s \<and> totalQuestions s \<le> 2 ^ 44
       \<and> (200 * correctCount s + totalQuestions s) mod (2 * totalQuestions s) \<noteq> 0
       \<longrightarrow> score s = (200 * int (correctCount s) + int (totalQuestions s))
                        div (2 * int (totalQuestions s))"
    "passed s
       = (case passingScore ex_locked of
            None \<Rightarrow> 70 \<le> score s
          | Some p \<Rightarrow> if p = 0 then 70 \<le> score s else p \<le> score s)"
    by blast
  from s(1) submit_stores [OF h1 h2, of ex_env]
  have "correctCount s = correctCount_of ex_db (or_val (answers_req ex_submit) Map.empty) ex_locked"
    "totalQuestions s = totalQuestions_of ex_locked"
    by auto
  then have ct: "correctCount s = 1" "totalQuestions s = 4"
    by (simp_all only: c t)
  from s(2) have sc: "score s = 25"
    by (simp add: ct)
  from s(3) have "passed s = False"
    by (simp add: sc h3)
  with s(1) ct sc have
    "submissions (fst (post_assessment_submit ex_env ''11'' ex_submit ex_db)) = [s]
       \<and> correctCount s = 1 \<and> totalQuestions s = 4 \<and> score s = 25 \<and> passed s = False"
    by (simp add: e)
  with h1 h2 h3 show ?thesis by blast
qed

text \<open>The claim as stated fails twice. An assessment with no question and passing score 0:
  the stored submission has score 0 and has not passed, though \<open>0 \<ge> 0\<close>. And 23 correct
  answers out of 40 are 57.5 percent, which rounds half up to 58: the stored score is 57.\<close>

theorem submit_score_and_passed_counterexample:
  "getAssessment ex_db ''12'' = Some ex_empty
   \<and> selectedChallenges ex_empty = Some [] \<and> passingScore ex_empty = Some 0
   \<and> map score (submissions (fst (post_assessment_submit ex_env ''12'' ex_submit ex_db))) = [0]
   \<and> map passed (submissions (fst (post_assessment_submit ex_env ''12'' ex_submit ex_db)))
       = [False]
   \<and> score_of 23 40 = 57 \<and> (200 * 23 + 40) div (2 * 40) = (58 :: int)"
proof -
  have h1: "getAssessment ex_db ''12'' = Some ex_empty"
    by (simp add: getAssessment_def ex_defs)
  have h2: "trim (or_str (candidateEmail_req ex_submit) []) \<noteq> []"
    by (simp add: ex_submit_def or_str_def trim_def isWhiteSpace_def)
  have a: "selectedChallenges ex_empty = Some []" "passingScore ex_empty = Some 0"
    by (simp_all add: ex_empty_def)
  have e: "submissions ex_db = []"
    by (simp add: ex_db_def)
  have c: "correctCount_of ex_db ans ex_empty = 0" "totalQuestions_of ex_empty = 0" for ans
    by (simp_all add: correctCount_of_def totalQuestions_of_def a)
  have s: "score_of 0 0 = 0" "passed_of 0 ex_empty = False"
    by (simp_all add: score_of_def passed_of_def or_num_def a)
  have "map score (submissions (fst (post_assessment_submit ex_env ''12'' ex_submit ex_db))) = [0]"
    "map passed (submissions (fst (post_assessment_submit ex_env ''12'' ex_submit ex_db)))
       = [False]"
    by (simp_all add: submit_stores [OF h1 h2] c s e)
  with h1 a score_of_23_40 show ?thesis
    by simp
qed

end
